theory Spec2Isabelle
  imports Complex_Main "HOL-Library.Word" "HOL-Library.Stream"
begin

section \<open>Bytes, typed arrays and strings\<close>

text \<open>
  A byte is an 8-bit word. A \<^verbatim>\<open>Uint8Array\<close> is a view of \<open>byteLength\<close> bytes,
  starting at \<open>byteOffset\<close>, on an underlying \<^verbatim>\<open>ArrayBuffer\<close>; its \<^verbatim>\<open>.buffer\<close>
  property is the whole underlying buffer, not the viewed part. \<^verbatim>\<open>new Uint8Array(n)\<close>,
  \<^verbatim>\<open>slice\<close> and \<^verbatim>\<open>hexToBytes\<close> allocate a buffer of their own, which the view then
  spans; \<^verbatim>\<open>subarray\<close> shares the buffer of the array it is taken from.

  The password is the one string the code turns into bytes (\<^verbatim>\<open>TextEncoder\<close>), so it is
  kept as the sequence of 16-bit code units a JavaScript string is. All other strings
  (hex fields, addresses, memo, message type) are only measured, compared, copied or
  hex-decoded, and are modelled as \<open>string\<close>, one character per code unit.
\<close>

type_synonym byte = "8 word"
type_synonym bytes = "byte list"
type_synonym utf16 = "16 word list"

record Uint8Array =
  buffer :: bytes
  byteOffset :: nat
  byteLength :: nat

definition view_bytes :: "Uint8Array \<Rightarrow> bytes" where
  "view_bytes a = take (byteLength a) (drop (byteOffset a) (buffer a))"

definition new_Uint8Array :: "bytes \<Rightarrow> Uint8Array" where
  "new_Uint8Array bs = \<lparr>buffer = bs, byteOffset = 0, byteLength = length bs\<rparr>"

definition subarray :: "Uint8Array \<Rightarrow> nat \<Rightarrow> nat \<Rightarrow> Uint8Array" where
  "subarray a begin fin =
     (let b = min begin (byteLength a); e = min fin (byteLength a)
      in \<lparr>buffer = buffer a, byteOffset = byteOffset a + b, byteLength = e - b\<rparr>)"

text \<open>The \<open>name\<close> of a thrown JavaScript exception, which is all the code inspects.\<close>

datatype js_exception = OperationError | DataError | PlainError

subsection \<open>Numbers\<close>

text \<open>
  A JavaScript \<^verbatim>\<open>number\<close> is a finite value, an infinity or NaN. The validator only
  compares numbers with 0; \<open>js_lt\<close> and \<open>js_le\<close> are \<^verbatim>\<open><\<close> and \<^verbatim>\<open><=\<close>, which are
  false whenever an operand is NaN.
\<close>

datatype number = Finite real | PosInf | NegInf | NaN

fun js_lt :: "number \<Rightarrow> number \<Rightarrow> bool" where
  "js_lt (Finite a) (Finite b) = (a < b)"
| "js_lt (Finite a) PosInf = True"
| "js_lt NegInf (Finite b) = True"
| "js_lt NegInf PosInf = True"
| "js_lt _ _ = False"

fun js_le :: "number \<Rightarrow> number \<Rightarrow> bool" where
  "js_le (Finite a) (Finite b) = (a \<le> b)"
| "js_le (Finite a) PosInf = True"
| "js_le NegInf (Finite b) = True"
| "js_le NegInf PosInf = True"
| "js_le NegInf NegInf = True"
| "js_le PosInf PosInf = True"
| "js_le _ _ = False"

subsection \<open>Hex encoding (\<^verbatim>\<open>@noble/hashes/utils\<close>)\<close>

text \<open>
  The digit \<^verbatim>\<open>toString(16)\<close> writes for \<open>n < 16\<close>: the characters 0 to 9 have the
  codes 48 to 57, a to f the codes 97 to 102.
\<close>

definition hexdigit :: "nat \<Rightarrow> char" where
  "hexdigit n = (if n < 10 then char_of (48 + n) else char_of (87 + n))"

definition hexes :: "byte \<Rightarrow> string" where
  "hexes b = [hexdigit (unat b div 16), hexdigit (unat b mod 16)]"

definition bytesToHex :: "bytes \<Rightarrow> string" where
  "bytesToHex bs = concat (map hexes bs)"

definition asciiToBase16 :: "char \<Rightarrow> nat option" where
  "asciiToBase16 c =
     (let ch = (of_char c :: nat) in
      if 48 \<le> ch \<and> ch \<le> 57 then Some (ch - 48)
      else if 65 \<le> ch \<and> ch \<le> 70 then Some (ch - (65 - 10))
      else if 97 \<le> ch \<and> ch \<le> 102 then Some (ch - (97 - 10))
      else None)"

fun hexPairs :: "string \<Rightarrow> js_exception + bytes" where
  "hexPairs (c1 # c2 # rest) =
     (case (asciiToBase16 c1, asciiToBase16 c2) of
        (Some n1, Some n2) \<Rightarrow>
          (case hexPairs rest of
             Inl e \<Rightarrow> Inl e
           | Inr bs \<Rightarrow> Inr (of_nat (n1 * 16 + n2) # bs))
      | _ \<Rightarrow> Inl PlainError)"
| "hexPairs [c] = Inl PlainError"
| "hexPairs [] = Inr []"

definition hexToBytes :: "string \<Rightarrow> js_exception + bytes" where
  "hexToBytes hex = (if odd (length hex) then Inl PlainError else hexPairs hex)"

subsection \<open>\<^verbatim>\<open>TextEncoder.encode\<close>: UTF-16 code units to UTF-8\<close>

text \<open>
  The encoder first turns the string into scalar values: a high surrogate followed by a
  low one is one code point, any other surrogate is replaced by U+FFFD.
\<close>

definition utf8_bytes :: "nat \<Rightarrow> bytes" where
  "utf8_bytes c =
     (if c < 0x80 then [of_nat c]
      else if c < 0x800 then [of_nat (0xC0 + c div 64), of_nat (0x80 + c mod 64)]
      else if c < 0x10000 then
        [of_nat (0xE0 + c div 4096), of_nat (0x80 + (c div 64) mod 64), of_nat (0x80 + c mod 64)]
      else
        [of_nat (0xF0 + c div 262144), of_nat (0x80 + (c div 4096) mod 64),
         of_nat (0x80 + (c div 64) mod 64), of_nat (0x80 + c mod 64)])"

definition is_high_surrogate :: "16 word \<Rightarrow> bool" where
  "is_high_surrogate u = (0xD800 \<le> unat u \<and> unat u \<le> 0xDBFF)"

definition is_low_surrogate :: "16 word \<Rightarrow> bool" where
  "is_low_surrogate u = (0xDC00 \<le> unat u \<and> unat u \<le> 0xDFFF)"

fun TextEncoder_encode :: "utf16 \<Rightarrow> bytes" where
  "TextEncoder_encode [] = []"
| "TextEncoder_encode (u # us) =
     (if is_high_surrogate u then
        (case us of
           [] \<Rightarrow> utf8_bytes 0xFFFD
         | v # vs \<Rightarrow>
             if is_low_surrogate v
             then utf8_bytes (0x10000 + (unat u - 0xD800) * 0x400 + (unat v - 0xDC00))
                    @ TextEncoder_encode vs
             else utf8_bytes 0xFFFD @ TextEncoder_encode us)
      else if is_low_surrogate u then utf8_bytes 0xFFFD @ TextEncoder_encode us
      else utf8_bytes (unat u) @ TextEncoder_encode us)"

section \<open>Cryptographic primitives and randomness\<close>

text \<open>
  Argon2i (\<^verbatim>\<open>@noble/hashes\<close>) and AES-GCM (Web Crypto) are libraries outside the
  repository. They are parameters of the model: \<open>argon2i env password salt t m p dkLen\<close>,
  \<open>aes_gcm_encrypt env key iv data\<close> and \<open>aes_gcm_decrypt env key iv data\<close>, each
  returning its result or the exception it throws. Web Crypto reports a failed
  authentication tag as \<open>OperationError\<close>.
\<close>

record crypto_env =
  argon2i :: "bytes \<Rightarrow> bytes \<Rightarrow> nat \<Rightarrow> nat \<Rightarrow> nat \<Rightarrow> nat \<Rightarrow> js_exception + bytes"
  aes_gcm_encrypt :: "bytes \<Rightarrow> bytes \<Rightarrow> bytes \<Rightarrow> js_exception + bytes"
  aes_gcm_decrypt :: "bytes \<Rightarrow> bytes \<Rightarrow> bytes \<Rightarrow> js_exception + bytes"

text \<open>
  \<^verbatim>\<open>crypto.subtle.importKey("raw", ..., {name: "AES-GCM"}, ...)\<close> accepts a key of 128,
  192 or 256 bits and throws \<open>DataError\<close> for any other length.
\<close>

definition importKey :: "bytes \<Rightarrow> js_exception + bytes" where
  "importKey raw = (if length raw \<in> {16, 24, 32} then Inr raw else Inl DataError)"

text \<open>
  \<^verbatim>\<open>crypto.getRandomValues\<close> fills an array from the platform's random source, here a
  stream of bytes; the rest of the stream is what later calls draw from.
\<close>

definition getRandomValues :: "nat \<Rightarrow> byte stream \<Rightarrow> bytes \<times> byte stream" where
  "getRandomValues n rng = (stake n rng, sdrop n rng)"

section \<open>wallet.ts: the key vault\<close>

definition ARGON2_PARAMS_t :: nat where "ARGON2_PARAMS_t = 3"
definition ARGON2_PARAMS_m :: nat where "ARGON2_PARAMS_m = 32 * 1024"
definition ARGON2_PARAMS_p :: nat where "ARGON2_PARAMS_p = 4"

definition SALT_LENGTH :: nat where "SALT_LENGTH = 16"
definition NONCE_LENGTH :: nat where "NONCE_LENGTH = 12"

record EncryptedCanopyKeyfile =
  publicKey :: string
  encrypted :: string
  salt :: string
  keyAddress :: string
  keyNickname :: string

text \<open>
  The errors the core raises, by the message the source throws:
  \<^item> \<open>InvalidPassword\<close>: "There's a problem with your password. Please try again."
  \<^item> \<open>CorruptedKeyfile\<close>: "Failed to decrypt private key: ..."
  \<^item> \<open>EncryptionFailure\<close>: "Failed to encrypt private key: ..."
  \<^item> \<open>InvalidParameter m\<close>: the message \<open>m\<close> thrown by \<open>validateTransactionParams\<close>
  \<^item> \<open>EncodingMismatch\<close>: whatever \<open>getSignBytesProtobuf\<close> throws
  \<^item> \<open>SigningFailure\<close>: whatever \<open>signMessage\<close> throws
\<close>

datatype error =
    InvalidPassword
  | CorruptedKeyfile
  | EncryptionFailure
  | InvalidParameter string
  | EncodingMismatch
  | SigningFailure

definition deriveKey :: "crypto_env \<Rightarrow> utf16 \<Rightarrow> bytes \<Rightarrow> js_exception + bytes" where
  "deriveKey env password saltBytes =
     (let passwordBytes = TextEncoder_encode password
      in argon2i env passwordBytes saltBytes ARGON2_PARAMS_t ARGON2_PARAMS_m ARGON2_PARAMS_p 32)"

text \<open>
  \<open>encryptPrivateKey\<close> draws the salt, derives the key, and encrypts
  \<^verbatim>\<open>privateKeyBytes.buffer\<close>. Every exception of the \<^verbatim>\<open>try\<close> block is rethrown as
  "Failed to encrypt private key". The random source is returned as the call left it.
\<close>

definition encryptPrivateKey ::
  "crypto_env \<Rightarrow> byte stream \<Rightarrow> Uint8Array \<Rightarrow> Uint8Array \<Rightarrow> utf16 \<Rightarrow> string
     \<Rightarrow> (error + EncryptedCanopyKeyfile) \<times> byte stream" where
  "encryptPrivateKey env rng publicKeyBytes privateKeyBytes password address =
     (let (saltBytes, rng') = getRandomValues SALT_LENGTH rng in
      (case deriveKey env password saltBytes of
         Inl e \<Rightarrow> Inl EncryptionFailure
       | Inr derivedKey \<Rightarrow>
           (case importKey derivedKey of
              Inl e \<Rightarrow> Inl EncryptionFailure
            | Inr cryptoKey \<Rightarrow>
                (let nonce = take NONCE_LENGTH derivedKey in
                 case aes_gcm_encrypt env cryptoKey nonce (buffer privateKeyBytes) of
                   Inl e \<Rightarrow> Inl EncryptionFailure
                 | Inr encryptedData \<Rightarrow>
                     Inr \<lparr>publicKey = bytesToHex (view_bytes publicKeyBytes),
                          encrypted = bytesToHex encryptedData,
                          salt = bytesToHex saltBytes,
                          keyAddress = address,
                          keyNickname = ''''\<rparr>)),
       rng'))"

text \<open>The \<^verbatim>\<open>try\<close> block of \<open>decryptPrivateKey\<close>, with the exception it ends in.\<close>

definition decryptPrivateKey_try ::
  "crypto_env \<Rightarrow> EncryptedCanopyKeyfile \<Rightarrow> utf16 \<Rightarrow> js_exception + bytes" where
  "decryptPrivateKey_try env encryptedKeyPair password =
     (case hexToBytes (salt encryptedKeyPair) of
        Inl e \<Rightarrow> Inl e
      | Inr saltBytes \<Rightarrow>
          (case hexToBytes (encrypted encryptedKeyPair) of
             Inl e \<Rightarrow> Inl e
           | Inr encryptedData \<Rightarrow>
               (case deriveKey env password saltBytes of
                  Inl e \<Rightarrow> Inl e
                | Inr derivedKey \<Rightarrow>
                    (case importKey derivedKey of
                       Inl e \<Rightarrow> Inl e
                     | Inr cryptoKey \<Rightarrow>
                         (let nonce = take NONCE_LENGTH derivedKey
                          in aes_gcm_decrypt env cryptoKey nonce encryptedData)))))"

text \<open>
  The \<^verbatim>\<open>catch\<close> block: an \<open>OperationError\<close> becomes the password message, every
  other exception "Failed to decrypt private key". The result is a new array that spans
  its own buffer, given here by its bytes.
\<close>

definition decryptPrivateKey ::
  "crypto_env \<Rightarrow> EncryptedCanopyKeyfile \<Rightarrow> utf16 \<Rightarrow> error + bytes" where
  "decryptPrivateKey env encryptedKeyPair password =
     (case decryptPrivateKey_try env encryptedKeyPair password of
        Inr decryptedData \<Rightarrow> Inr decryptedData
      | Inl e \<Rightarrow> if e = OperationError then Inl InvalidPassword else Inl CorruptedKeyfile)"

text \<open>\<open>verifyPassword\<close>: a bare \<^verbatim>\<open>catch\<close> that returns false.\<close>

definition verifyPassword ::
  "crypto_env \<Rightarrow> EncryptedCanopyKeyfile \<Rightarrow> utf16 \<Rightarrow> error + bool" where
  "verifyPassword env encryptedKf password =
     (case decryptPrivateKey env encryptedKf password of
        Inr _ \<Rightarrow> Inr True
      | Inl _ \<Rightarrow> Inr False)"

section \<open>crypto.ts: clearing sensitive strings\<close>

text \<open>
  \<open>CryptoUtils.clearSensitiveData\<close> runs a callback on each argument; the callback
  assigns the string of NUL characters to its own parameter \<open>item\<close>.
  \<open>clearSensitiveData_item\<close> is that parameter when the callback returns;
  \<open>clearSensitiveData\<close> gives the caller's strings as they are after the call.
\<close>

definition clearSensitiveData_item :: "string option \<Rightarrow> string option" where
  "clearSensitiveData_item item =
     (case item of
        None \<Rightarrow> item
      | Some s \<Rightarrow> if s \<noteq> [] then Some (replicate (length s) (CHR 0x00)) else item)"

definition clearSensitiveData :: "string option list \<Rightarrow> string option list" where
  "clearSensitiveData items = (let locals = map clearSensitiveData_item items in items)"

section \<open>transaction.ts: building and signing\<close>

datatype CurveType = ED25519 | BLS12381

record MessageCreateOrderParams =
  chainId :: number
  data :: string
  amountForSale :: number
  requestedAmount :: number
  sellerReceiveAddress :: string
  sellersSendAddress :: string
  orderId :: string

text \<open>
  The message payloads: Send (from, to, amount), CreateOrder, EditOrder (orderId, chainId,
  data, amountForSale, requestedAmount, sellerReceiveAddress) and DeleteOrder (orderId,
  chainId).
\<close>

datatype TransactionMessage =
    MessageSend string string number
  | MessageCreateOrder MessageCreateOrderParams
  | MessageEditOrder string number string number number string
  | MessageDeleteOrder string number

text \<open>
  \<open>msg\<close> is \<open>None\<close> for a payload that is \<^verbatim>\<open>null\<close> or \<^verbatim>\<open>undefined\<close>, the case
  \<open>validateTransactionParams\<close> tests for. The fields that TypeScript types as
  \<^verbatim>\<open>number\<close> are numbers, NaN and the infinities included; on them the validator's
  \<^verbatim>\<open>typeof x !== "number"\<close> is false. The \<open>time\<close> of a transaction is the clock
  reading, an integer, times 1000.
\<close>

record TransactionParams =
  type :: string
  msg :: "TransactionMessage option"
  fee :: number
  memo :: string
  networkID :: number
  chainID :: number
  height :: number

record TransactionSignature =
  publicKey :: string
  signature :: string

record UnsignedTransaction =
  type :: string
  msg :: "TransactionMessage option"
  time :: int
  createdHeight :: number
  fee :: number
  memo :: string
  networkID :: number
  chainID :: number

record RawTransaction = UnsignedTransaction +
  signature :: TransactionSignature

record SendRawTransactionRequest =
  raw_transaction :: RawTransaction

text \<open>
  \<open>getSignBytesProtobuf\<close> (\<^verbatim>\<open>./protobuf\<close>) and \<open>signMessage\<close> (\<^verbatim>\<open>./signing\<close>) are
  not among the sources: they are parameters, \<open>None\<close> when they throw. \<open>Date_now\<close> is
  the clock reading, in milliseconds.
\<close>

record tx_env =
  getSignBytesProtobuf :: "UnsignedTransaction \<Rightarrow> bytes option"
  signMessage :: "bytes \<Rightarrow> string \<Rightarrow> CurveType \<Rightarrow> string option"
  Date_now :: int

definition createAndSignTransaction ::
  "tx_env \<Rightarrow> TransactionParams \<Rightarrow> string \<Rightarrow> string \<Rightarrow> CurveType
     \<Rightarrow> error + SendRawTransactionRequest" where
  "createAndSignTransaction txenv params privateKeyHex publicKeyHex curveType =
     (let unsignedTx =
            \<lparr>UnsignedTransaction.type = TransactionParams.type params,
             msg = TransactionParams.msg params,
             time = Date_now txenv * 1000,
             createdHeight = height params,
             fee = TransactionParams.fee params,
             memo = TransactionParams.memo params,
             networkID = TransactionParams.networkID params,
             chainID = TransactionParams.chainID params\<rparr>
      in case getSignBytesProtobuf txenv unsignedTx of
           None \<Rightarrow> Inl EncodingMismatch
         | Some signBytes \<Rightarrow>
             (case signMessage txenv signBytes privateKeyHex curveType of
                None \<Rightarrow> Inl SigningFailure
              | Some signatureHex \<Rightarrow>
                  (let sig = \<lparr>TransactionSignature.publicKey = publicKeyHex,
                              signature = signatureHex\<rparr>;
                       signedTx = UnsignedTransaction.extend unsignedTx (RawTransaction.fields sig)
                   in Inr \<lparr>raw_transaction = signedTx\<rparr>)))"

definition createSendMessage :: "string \<Rightarrow> string \<Rightarrow> number \<Rightarrow> TransactionMessage" where
  "createSendMessage fromAddress toAddress amount = MessageSend fromAddress toAddress amount"

definition createOrderMessage ::
  "number \<Rightarrow> string \<Rightarrow> number \<Rightarrow> number \<Rightarrow> string \<Rightarrow> string
     \<Rightarrow> MessageCreateOrderParams" where
  "createOrderMessage cId d forSale requested receiveAddress sendAddress =
     \<lparr>chainId = cId,
      data = d,
      amountForSale = forSale,
      requestedAmount = requested,
      sellerReceiveAddress = receiveAddress,
      sellersSendAddress = sendAddress,
      orderId = ''''\<rparr>"

definition createEditOrderMessage ::
  "string \<Rightarrow> number \<Rightarrow> string \<Rightarrow> number \<Rightarrow> number \<Rightarrow> string
     \<Rightarrow> TransactionMessage" where
  "createEditOrderMessage oId cId d forSale requested receiveAddress =
     MessageEditOrder oId cId d forSale requested receiveAddress"

definition createDeleteOrderMessage :: "string \<Rightarrow> number \<Rightarrow> TransactionMessage" where
  "createDeleteOrderMessage oId cId = MessageDeleteOrder oId cId"

definition validateTransactionParams :: "TransactionParams \<Rightarrow> error + unit" where
  "validateTransactionParams params =
     (if TransactionParams.type params = [] then
        Inl (InvalidParameter ''Invalid message type: must be a non-empty string'')
      else if TransactionParams.msg params = None then
        Inl (InvalidParameter ''Invalid message: must be an object'')
      else if js_lt (TransactionParams.fee params) (Finite 0) then
        Inl (InvalidParameter ''Invalid fee: must be a non-negative number'')
      else if js_le (TransactionParams.networkID params) (Finite 0) then
        Inl (InvalidParameter ''Invalid network ID: must be a positive number'')
      else if js_le (TransactionParams.chainID params) (Finite 0) then
        Inl (InvalidParameter ''Invalid chain ID: must be a positive number'')
      else if js_lt (height params) (Finite 0) then
        Inl (InvalidParameter ''Invalid height: must be a non-negative number'')
      else if TransactionParams.memo params \<noteq> [] \<and> length (TransactionParams.memo params) > 200 then
        Inl (InvalidParameter ''Invalid memo: must be 200 characters or less'')
      else Inr ())"

section \<open>utils/order.ts: the build flows\<close>

record CanopyWalletAccount =
  filename :: string
  encryptedKeyfile :: EncryptedCanopyKeyfile

record OrderParams =
  chainId :: number
  data :: string
  amountForSale :: number
  requestedAmount :: number
  sellerReceiveAddress :: string
  sellersSendAddress :: string

record EditParams =
  orderId :: string
  chainId :: number
  data :: string
  amountForSale :: number
  requestedAmount :: number
  sellerReceiveAddress :: string

record DeleteParams =
  orderId :: string
  chainId :: number

record NetworkParams =
  networkID :: number
  chainID :: number
  currentHeight :: number
  fee :: number

text \<open>
  \<^verbatim>\<open>Array.from(privateKeyBytes).map((b) => b.toString(16).padStart(2, "0")).join("")\<close>
\<close>

definition toString16 :: "byte \<Rightarrow> string" where
  "toString16 b =
     (if unat b < 16 then [hexdigit (unat b)]
      else [hexdigit (unat b div 16), hexdigit (unat b mod 16)])"

definition padStart :: "nat \<Rightarrow> char \<Rightarrow> string \<Rightarrow> string" where
  "padStart n c s = replicate (n - length s) c @ s"

definition privateKeyHex_of :: "bytes \<Rightarrow> string" where
  "privateKeyHex_of privateKeyBytes =
     concat (map (\<lambda>b. padStart 2 (CHR ''0'') (toString16 b)) privateKeyBytes)"

text \<open>
  The curve is read off the public key in each flow by the same two lines:
  \<^verbatim>\<open>publicKey.length / 2\<close>, a division of numbers (97 / 2 is 48.5), compared with 48.
\<close>

definition detectCurveType :: "string \<Rightarrow> CurveType" where
  "detectCurveType publicKeyHex =
     (let publicKeyBytes = real (length publicKeyHex) / 2
      in if publicKeyBytes = 48 then BLS12381 else ED25519)"

text \<open>
  The three flows have the same shape: decrypt, hex-encode the key, detect the curve,
  build the message and the transaction parameters (\<open>..._txParams\<close>, the flow's steps
  "create message" and "build transaction parameters"), then sign. Each flow returns its
  result together with the contents of the \<open>privateKeyBytes\<close> array as the call leaves
  it (\<open>None\<close> when decryption threw and no array exists).
\<close>

definition createSignedOrder_txParams :: "OrderParams \<Rightarrow> NetworkParams \<Rightarrow> TransactionParams" where
  "createSignedOrder_txParams orderParams networkParams =
     (let orderMsg =
            createOrderMessage
              (OrderParams.chainId orderParams)
              (OrderParams.data orderParams)
              (OrderParams.amountForSale orderParams)
              (OrderParams.requestedAmount orderParams)
              (OrderParams.sellerReceiveAddress orderParams)
              (OrderParams.sellersSendAddress orderParams)
      in \<lparr>TransactionParams.type = ''createOrder'',
          msg = Some (MessageCreateOrder orderMsg),
          fee = NetworkParams.fee networkParams,
          memo = '''',
          networkID = NetworkParams.networkID networkParams,
          chainID = NetworkParams.chainID networkParams,
          height = currentHeight networkParams\<rparr>)"

definition createSignedOrder ::
  "crypto_env \<Rightarrow> tx_env \<Rightarrow> CanopyWalletAccount \<Rightarrow> utf16 \<Rightarrow> OrderParams \<Rightarrow> NetworkParams
     \<Rightarrow> (error + SendRawTransactionRequest) \<times> bytes option" where
  "createSignedOrder env txenv storedKey password orderParams networkParams =
     (case decryptPrivateKey env (encryptedKeyfile storedKey) password of
        Inl e \<Rightarrow> (Inl e, None)
      | Inr privateKeyBytes \<Rightarrow>
          (let privateKeyHex = privateKeyHex_of privateKeyBytes;
               curveType =
                 detectCurveType (EncryptedCanopyKeyfile.publicKey (encryptedKeyfile storedKey));
               txParams = createSignedOrder_txParams orderParams networkParams;
               signedTx =
                 createAndSignTransaction txenv txParams privateKeyHex
                   (EncryptedCanopyKeyfile.publicKey (encryptedKeyfile storedKey)) curveType
           in (signedTx, Some privateKeyBytes)))"

definition createSignedEditOrder_txParams :: "EditParams \<Rightarrow> NetworkParams \<Rightarrow> TransactionParams" where
  "createSignedEditOrder_txParams editParams networkParams =
     (let editMsg =
            createEditOrderMessage
              (EditParams.orderId editParams)
              (EditParams.chainId editParams)
              (EditParams.data editParams)
              (EditParams.amountForSale editParams)
              (EditParams.requestedAmount editParams)
              (EditParams.sellerReceiveAddress editParams)
      in \<lparr>TransactionParams.type = ''editOrder'',
          msg = Some editMsg,
          fee = NetworkParams.fee networkParams,
          memo = '''',
          networkID = NetworkParams.networkID networkParams,
          chainID = NetworkParams.chainID networkParams,
          height = currentHeight networkParams\<rparr>)"

definition createSignedEditOrder ::
  "crypto_env \<Rightarrow> tx_env \<Rightarrow> CanopyWalletAccount \<Rightarrow> utf16 \<Rightarrow> EditParams \<Rightarrow> NetworkParams
     \<Rightarrow> (error + SendRawTransactionRequest) \<times> bytes option" where
  "createSignedEditOrder env txenv storedKey password editParams networkParams =
     (case decryptPrivateKey env (encryptedKeyfile storedKey) password of
        Inl e \<Rightarrow> (Inl e, None)
      | Inr privateKeyBytes \<Rightarrow>
          (let privateKeyHex = privateKeyHex_of privateKeyBytes;
               curveType =
                 detectCurveType (EncryptedCanopyKeyfile.publicKey (encryptedKeyfile storedKey));
               txParams = createSignedEditOrder_txParams editParams networkParams;
               signedTx =
                 createAndSignTransaction txenv txParams privateKeyHex
                   (EncryptedCanopyKeyfile.publicKey (encryptedKeyfile storedKey)) curveType
           in (signedTx, Some privateKeyBytes)))"

definition createSignedDeleteOrder_txParams :: "DeleteParams \<Rightarrow> NetworkParams \<Rightarrow> TransactionParams" where
  "createSignedDeleteOrder_txParams deleteParams networkParams =
     (let deleteMsg =
            createDeleteOrderMessage
              (DeleteParams.orderId deleteParams)
              (DeleteParams.chainId deleteParams)
      in \<lparr>TransactionParams.type = ''deleteOrder'',
          msg = Some deleteMsg,
          fee = NetworkParams.fee networkParams,
          memo = '''',
          networkID = NetworkParams.networkID networkParams,
          chainID = NetworkParams.chainID networkParams,
          height = currentHeight networkParams\<rparr>)"

definition createSignedDeleteOrder ::
  "crypto_env \<Rightarrow> tx_env \<Rightarrow> CanopyWalletAccount \<Rightarrow> utf16 \<Rightarrow> DeleteParams \<Rightarrow> NetworkParams
     \<Rightarrow> (error + SendRawTransactionRequest) \<times> bytes option" where
  "createSignedDeleteOrder env txenv storedKey password deleteParams networkParams =
     (case decryptPrivateKey env (encryptedKeyfile storedKey) password of
        Inl e \<Rightarrow> (Inl e, None)
      | Inr privateKeyBytes \<Rightarrow>
          (let privateKeyHex = privateKeyHex_of privateKeyBytes;
               curveType =
                 detectCurveType (EncryptedCanopyKeyfile.publicKey (encryptedKeyfile storedKey));
               txParams = createSignedDeleteOrder_txParams deleteParams networkParams;
               signedTx =
                 createAndSignTransaction txenv txParams privateKeyHex
                   (EncryptedCanopyKeyfile.publicKey (encryptedKeyfile storedKey)) curveType
           in (signedTx, Some privateKeyBytes)))"

section \<open>Assumptions on the primitives, and an instance to run the model on\<close>

text \<open>
  What the proofs assume of the libraries is stated as predicates on the environment:
  \<^item> \<open>aead_correct\<close>: decrypting a ciphertext with the key and nonce that produced it
    gives back the plaintext;
  \<^item> \<open>argon2_output_length\<close>: Argon2i returns as many bytes as \<open>dkLen\<close> asks for.
\<close>

definition aead_correct :: "crypto_env \<Rightarrow> bool" where
  "aead_correct env \<longleftrightarrow>
     (\<forall>k iv d c. aes_gcm_encrypt env k iv d = Inr c \<longrightarrow> aes_gcm_decrypt env k iv c = Inr d)"


text \<open>
  Modelled from the spec: \<open>signMessage\<close> (\<^verbatim>\<open>./signing\<close>) is not among the sources.
  The spec's signer "produces a 64-byte raw signature" for ED25519, which the transaction
  carries hex-encoded: 128 characters.
\<close>

definition ed25519_signature_length :: "tx_env \<Rightarrow> bool" where
  "ed25519_signature_length txenv \<longleftrightarrow>
     (\<forall>signBytes privateKeyHex s.
        signMessage txenv signBytes privateKeyHex ED25519 = Some s \<longrightarrow> length s = 128)"

text \<open>
  The environment whose cipher refuses every nonce but the first 12 bytes of the key it is
  called with. The code behaves the same in it exactly if it never passes another nonce.
\<close>

definition nonce_restricted :: "crypto_env \<Rightarrow> crypto_env" where
  "nonce_restricted env =
     env\<lparr>aes_gcm_encrypt :=
           (\<lambda>k iv d. if iv = take 12 k then aes_gcm_encrypt env k iv d else Inl PlainError),
         aes_gcm_decrypt :=
           (\<lambda>k iv c. if iv = take 12 k then aes_gcm_decrypt env k iv c else Inl PlainError)\<rparr>"

text \<open>
  A small instance of the primitives for concrete runs: the key derivation pads the
  password and salt to the requested length, the cipher takes 256-bit keys only and
  appends the key to the data as its tag. The random source counts 0, 1, 2, ...; the
  codec returns no bytes and the signer a string of the length of the curve's signature.
\<close>

definition test_env :: crypto_env where
  "test_env =
     \<lparr>argon2i = (\<lambda>pw s t m p dkLen. Inr (take dkLen (pw @ s @ replicate dkLen 0))),
      aes_gcm_encrypt = (\<lambda>k iv d. if length k = 32 then Inr (d @ k) else Inl OperationError),
      aes_gcm_decrypt = (\<lambda>k iv c.
        if length k = 32 \<and> 32 \<le> length c \<and> drop (length c - 32) c = k
        then Inr (take (length c - 32) c) else Inl OperationError)\<rparr>"

definition test_rng :: "byte stream" where
  "test_rng = siterate (\<lambda>b. b + 1) 0"

definition test_txenv :: tx_env where
  "test_txenv =
     \<lparr>getSignBytesProtobuf = (\<lambda>tx. Some []),
      signMessage = (\<lambda>signBytes privateKeyHex curveType.
        Some (replicate (case curveType of ED25519 \<Rightarrow> 128 | BLS12381 \<Rightarrow> 192) (CHR ''0''))),
      Date_now = 1700000000000\<rparr>"

definition test_password :: utf16 where
  "test_password = [0x70, 0x77]"

definition test_publicKeyBytes :: Uint8Array where
  "test_publicKeyBytes = new_Uint8Array (replicate 32 0xAB)"

definition test_privateKeyBytes :: Uint8Array where
  "test_privateKeyBytes = subarray (new_Uint8Array (replicate 32 1 @ replicate 32 2)) 0 32"

definition test_derivedKey :: bytes where
  "test_derivedKey = [0x70, 0x77, 0,1,2,3,4,5,6,7,8,9,10,11,12,13,14,15] @ replicate 14 0"

definition test_keyfile :: EncryptedCanopyKeyfile where
  "test_keyfile =
     \<lparr>EncryptedCanopyKeyfile.publicKey = bytesToHex (replicate 32 0xAB),
      encrypted = bytesToHex (replicate 32 1 @ replicate 32 2 @ test_derivedKey),
      salt = bytesToHex [0,1,2,3,4,5,6,7,8,9,10,11,12,13,14,15],
      keyAddress = ''addr'',
      keyNickname = ''''\<rparr>"

definition test_wrong_password :: utf16 where
  "test_wrong_password = [0x71]"

definition test_wrong_derivedKey :: bytes where
  "test_wrong_derivedKey = [0x71, 0,1,2,3,4,5,6,7,8,9,10,11,12,13,14,15] @ replicate 15 0"

definition corrupted_keyfile :: EncryptedCanopyKeyfile where
  "corrupted_keyfile = test_keyfile\<lparr>salt := ''zz''\<rparr>"

definition test_account :: CanopyWalletAccount where
  "test_account = \<lparr>filename = ''wallet.json'', encryptedKeyfile = test_keyfile\<rparr>"

definition test_orderParams :: OrderParams where
  "test_orderParams =
     \<lparr>OrderParams.chainId = Finite 1, data = ''abcd'', amountForSale = Finite 100,
      requestedAmount = Finite 50,
      sellerReceiveAddress = ''aa'', sellersSendAddress = ''bb''\<rparr>"

definition test_deleteParams :: DeleteParams where
  "test_deleteParams = \<lparr>DeleteParams.orderId = ''0f0f'', chainId = Finite 1\<rparr>"

definition test_editParams :: EditParams where
  "test_editParams =
     \<lparr>EditParams.orderId = ''0f0f'', chainId = Finite 1, data = ''abcd'',
      amountForSale = Finite 100, requestedAmount = Finite 50, sellerReceiveAddress = ''aa''\<rparr>"

definition test_networkParams :: NetworkParams where
  "test_networkParams =
     \<lparr>NetworkParams.networkID = Finite 1, chainID = Finite 1, currentHeight = Finite 500,
      fee = Finite 10000\<rparr>"

definition test_txParams :: TransactionParams where
  "test_txParams = createSignedOrder_txParams test_orderParams test_networkParams"

definition failing_signer_txenv :: tx_env where
  "failing_signer_txenv = test_txenv\<lparr>signMessage := (\<lambda>signBytes privateKeyHex curveType. None)\<rparr>"

definition fee_minus_one_params :: TransactionParams where
  "fee_minus_one_params = test_txParams\<lparr>TransactionParams.fee := Finite (- 1)\<rparr>"

definition fee_minus_one_networkParams :: NetworkParams where
  "fee_minus_one_networkParams = test_networkParams\<lparr>NetworkParams.fee := Finite (- 1)\<rparr>"

definition bls_account :: CanopyWalletAccount where
  "bls_account =
     test_account\<lparr>encryptedKeyfile :=
       test_keyfile\<lparr>EncryptedCanopyKeyfile.publicKey := bytesToHex (replicate 48 0xCD)\<rparr>\<rparr>"

section \<open>Properties\<close>

subsection \<open>Hex encoding round trip\<close>

lemma asciiToBase16_hexdigit: "n < 16 \<Longrightarrow> asciiToBase16 (hexdigit n) = Some n"
  by (simp add: asciiToBase16_def hexdigit_def Let_def)

lemma hexPairs_hexes:
  "hexPairs (hexes b @ rest) = (case hexPairs rest of Inl e \<Rightarrow> Inl e | Inr bs \<Rightarrow> Inr (b # bs))"
proof -
  have hi: "unat b div 16 < 16" using unsigned_less [of b, where ?'a = nat] by simp
  have lo: "unat b mod 16 < 16" by simp
  have recompose: "(of_nat (unat b div 16 * 16 + unat b mod 16) :: byte) = b" by simp
  show ?thesis
    by (cases "hexPairs rest")
      (simp_all add: hexes_def asciiToBase16_hexdigit [OF hi] asciiToBase16_hexdigit [OF lo] recompose)
qed

lemma hexPairs_bytesToHex: "hexPairs (bytesToHex bs) = Inr bs"
  by (induction bs) (simp_all add: bytesToHex_def hexPairs_hexes)

lemma length_bytesToHex: "length (bytesToHex bs) = 2 * length bs"
  by (induction bs) (simp_all add: bytesToHex_def hexes_def)

lemma hexToBytes_bytesToHex: "hexToBytes (bytesToHex bs) = Inr bs"
  by (simp add: hexToBytes_def length_bytesToHex hexPairs_bytesToHex)

subsection \<open>Encryption and decryption, step by step\<close>

lemma encryptPrivateKey_rng: "snd (encryptPrivateKey env rng pub k p addr) = sdrop 16 rng"
  by (simp add: encryptPrivateKey_def getRandomValues_def SALT_LENGTH_def)

lemma encryptPrivateKey_Inr:
  assumes "encryptPrivateKey env rng pub k p addr = (Inr kf, rng')"
  shows "\<exists>dk c. deriveKey env p (stake 16 rng) = Inr dk \<and> importKey dk = Inr dk
           \<and> aes_gcm_encrypt env dk (take 12 dk) (buffer k) = Inr c
           \<and> kf = \<lparr>EncryptedCanopyKeyfile.publicKey = bytesToHex (view_bytes pub),
                   encrypted = bytesToHex c, salt = bytesToHex (stake 16 rng),
                   keyAddress = addr, keyNickname = ''''\<rparr>"
  using assms
  by (auto simp: encryptPrivateKey_def getRandomValues_def SALT_LENGTH_def NONCE_LENGTH_def
        importKey_def split: sum.splits if_splits)

lemma decryptPrivateKey_try_keyfile:
  "decryptPrivateKey_try env
     \<lparr>EncryptedCanopyKeyfile.publicKey = pk, encrypted = bytesToHex c, salt = bytesToHex s,
      keyAddress = addr, keyNickname = nick\<rparr> p
   = (case deriveKey env p s of
        Inl e \<Rightarrow> Inl e
      | Inr dk \<Rightarrow> (case importKey dk of
                     Inl e \<Rightarrow> Inl e
                   | Inr ck \<Rightarrow> aes_gcm_decrypt env ck (take 12 dk) c))"
  by (simp add: decryptPrivateKey_try_def hexToBytes_bytesToHex NONCE_LENGTH_def Let_def
        split: sum.splits)

lemma decrypt_encrypt_buffer:
  assumes "aead_correct env" and "encryptPrivateKey env rng pub k p addr = (Inr kf, rng')"
  shows "decryptPrivateKey env kf p = Inr (buffer k)"
proof -
  from encryptPrivateKey_Inr [OF assms(2)] obtain dk c where
    dk: "deriveKey env p (stake 16 rng) = Inr dk" and ik: "importKey dk = Inr dk"
    and c: "aes_gcm_encrypt env dk (take 12 dk) (buffer k) = Inr c"
    and kf: "kf = \<lparr>EncryptedCanopyKeyfile.publicKey = bytesToHex (view_bytes pub),
                   encrypted = bytesToHex c, salt = bytesToHex (stake 16 rng),
                   keyAddress = addr, keyNickname = ''''\<rparr>"
    by blast
  from assms(1) c have "aes_gcm_decrypt env dk (take 12 dk) c = Inr (buffer k)"
    by (simp add: aead_correct_def)
  then show ?thesis
    by (simp add: decryptPrivateKey_def kf decryptPrivateKey_try_keyfile dk ik)
qed

subsection \<open>The test instance\<close>

lemma test_env_aead_correct: "aead_correct test_env"
  by (auto simp: aead_correct_def test_env_def split: if_splits)


lemma stake_test_rng: "stake 16 test_rng = [0,1,2,3,4,5,6,7,8,9,10,11,12,13,14,15]"
  by (simp add: test_rng_def eval_nat_numeral)

lemma stake_test_rng_next:
  "stake 16 (sdrop 16 test_rng) = [16,17,18,19,20,21,22,23,24,25,26,27,28,29,30,31]"
  by (simp add: test_rng_def eval_nat_numeral)

lemma TextEncoder_test_password: "TextEncoder_encode test_password = [0x70, 0x77]"
  by (simp add: test_password_def is_high_surrogate_def is_low_surrogate_def utf8_bytes_def)

lemma test_deriveKey:
  "deriveKey test_env test_password [0,1,2,3,4,5,6,7,8,9,10,11,12,13,14,15] = Inr test_derivedKey"
  by (simp add: deriveKey_def test_env_def TextEncoder_test_password test_derivedKey_def)

lemma length_test_derivedKey: "length test_derivedKey = 32"
  by (simp add: test_derivedKey_def)

lemma buffer_test_privateKeyBytes: "buffer test_privateKeyBytes = replicate 32 1 @ replicate 32 2"
  by (simp add: test_privateKeyBytes_def subarray_def new_Uint8Array_def Let_def)

lemma view_test_privateKeyBytes: "view_bytes test_privateKeyBytes = replicate 32 1"
  by (simp add: test_privateKeyBytes_def subarray_def new_Uint8Array_def Let_def view_bytes_def)

lemma view_test_publicKeyBytes: "view_bytes test_publicKeyBytes = replicate 32 0xAB"
  by (simp add: test_publicKeyBytes_def new_Uint8Array_def view_bytes_def)

lemma test_encrypt:
  "encryptPrivateKey test_env test_rng test_publicKeyBytes test_privateKeyBytes test_password ''addr''
     = (Inr test_keyfile, sdrop 16 test_rng)"
proof -
  have "aes_gcm_encrypt test_env test_derivedKey (take 12 test_derivedKey) (buffer test_privateKeyBytes)
          = Inr (buffer test_privateKeyBytes @ test_derivedKey)"
    by (simp add: test_env_def length_test_derivedKey)
  then show ?thesis
    by (simp add: encryptPrivateKey_def getRandomValues_def SALT_LENGTH_def NONCE_LENGTH_def
          stake_test_rng test_deriveKey importKey_def length_test_derivedKey
          view_test_publicKeyBytes buffer_test_privateKeyBytes test_keyfile_def)
qed

lemma test_env_deriveKey_succeeds:
  "\<exists>dk. deriveKey test_env p s = Inr dk \<and> length dk = 32"
  by (simp add: deriveKey_def test_env_def Let_def)

lemma test_env_encrypt_succeeds:
  "\<exists>kf. encryptPrivateKey test_env rng pub k p addr = (Inr kf, sdrop 16 rng)"
proof -
  obtain dk where dk: "deriveKey test_env p (stake 16 rng) = Inr dk" and len: "length dk = 32"
    using test_env_deriveKey_succeeds by blast
  have "aes_gcm_encrypt test_env dk (take 12 dk) (buffer k) = Inr (buffer k @ dk)"
    by (simp add: test_env_def len)
  then show ?thesis
    by (simp add: encryptPrivateKey_def getRandomValues_def SALT_LENGTH_def NONCE_LENGTH_def
          dk importKey_def len)
qed

lemma test_deriveKey_wrong:
  "deriveKey test_env test_wrong_password (stake 16 test_rng) = Inr test_wrong_derivedKey"
  by (simp add: deriveKey_def test_env_def test_wrong_password_def stake_test_rng
        is_high_surrogate_def is_low_surrogate_def utf8_bytes_def test_wrong_derivedKey_def)

lemma length_test_wrong_derivedKey: "length test_wrong_derivedKey = 32"
  by (simp add: test_wrong_derivedKey_def)

lemma test_keys_differ: "test_derivedKey \<noteq> test_wrong_derivedKey"
  by (simp add: test_derivedKey_def test_wrong_derivedKey_def)

lemma test_wrong_password_rejected_by_cipher:
  "aes_gcm_decrypt test_env test_wrong_derivedKey (take 12 test_wrong_derivedKey)
     (replicate 32 1 @ replicate 32 2 @ test_derivedKey) = Inl OperationError"
  using test_keys_differ
  by (simp add: test_env_def length_test_wrong_derivedKey length_test_derivedKey)

lemma test_decrypt_wrong_password:
  "decryptPrivateKey test_env test_keyfile test_wrong_password = Inl InvalidPassword"
proof -
  have dk: "deriveKey test_env test_wrong_password [0,1,2,3,4,5,6,7,8,9,10,11,12,13,14,15]
      = Inr test_wrong_derivedKey"
    using test_deriveKey_wrong by (simp add: stake_test_rng)
  have ik: "importKey test_wrong_derivedKey = Inr test_wrong_derivedKey"
    by (simp add: importKey_def length_test_wrong_derivedKey)
  show ?thesis
    by (simp add: decryptPrivateKey_def test_keyfile_def decryptPrivateKey_try_keyfile dk ik
          test_wrong_password_rejected_by_cipher)
qed

lemma decrypt_corrupted_keyfile:
  "decryptPrivateKey env corrupted_keyfile password = Inl CorruptedKeyfile"
  by (simp add: decryptPrivateKey_def decryptPrivateKey_try_def corrupted_keyfile_def
        hexToBytes_def asciiToBase16_def)

subsection \<open>Round trip of the key vault\<close>

text \<open>
  An array that spans its own buffer, as \<^verbatim>\<open>new Uint8Array(n)\<close> and \<^verbatim>\<open>hexToBytes\<close>
  return it, comes back unchanged.
\<close>

lemma decrypt_encrypt_whole_array:
  assumes "aead_correct env"
    and "encryptPrivateKey env rng publicKeyBytes (new_Uint8Array key) password address = (Inr kf, rng')"
  shows "decryptPrivateKey env kf password = Inr key"
  using decrypt_encrypt_buffer [OF assms] by (simp add: new_Uint8Array_def)

text \<open>
  Claim C2: decrypting the keyfile that encryption produced, with the same password,
  returns exactly the original key bytes. What the code returns is the whole buffer
  underlying \<open>privateKeyBytes\<close> (it encrypts \<^verbatim>\<open>privateKeyBytes.buffer\<close>): the key
  bytes exactly when the array spans its buffer. For a 32-byte view on a 64-byte buffer
  the call returns all 64 bytes.
\<close>

theorem decrypt_encrypt_returns_underlying_buffer:
  assumes "aead_correct env"
    and "encryptPrivateKey env rng publicKeyBytes privateKeyBytes password address = (Inr kf, rng')"
  shows "decryptPrivateKey env kf password = Inr (buffer privateKeyBytes)
         \<and> (decryptPrivateKey env kf password = Inr (view_bytes privateKeyBytes)
              \<longleftrightarrow> buffer privateKeyBytes = view_bytes privateKeyBytes)"
proof -
  have "decryptPrivateKey env kf password = Inr (buffer privateKeyBytes)"
    using assms by (rule decrypt_encrypt_buffer)
  then show ?thesis by simp
qed

theorem decrypt_encrypt_returns_underlying_buffer_witness:
  "aead_correct test_env
   \<and> encryptPrivateKey test_env test_rng test_publicKeyBytes test_privateKeyBytes test_password ''addr''
       = (Inr test_keyfile, sdrop 16 test_rng)
   \<and> view_bytes test_privateKeyBytes = replicate 32 1
   \<and> decryptPrivateKey test_env test_keyfile test_password = Inr (replicate 32 1 @ replicate 32 2)
   \<and> decryptPrivateKey test_env test_keyfile test_password \<noteq> Inr (view_bytes test_privateKeyBytes)"
  using decrypt_encrypt_returns_underlying_buffer [OF test_env_aead_correct test_encrypt]
  by (simp add: test_env_aead_correct test_encrypt buffer_test_privateKeyBytes
        view_test_privateKeyBytes)

subsection \<open>Password verification\<close>

text \<open>
  Claim C3, as amended: \<open>verifyPassword\<close> never raises. It returns false whenever
  decryption fails, whatever the error kind (the password error and the corrupted-keyfile
  error alike), and true when decryption succeeds.
\<close>

theorem verifyPassword_false_on_every_error:
  "(\<exists>b. verifyPassword env kf password = Inr b)
   \<and> (\<forall>e. decryptPrivateKey env kf password = Inl e \<longrightarrow> verifyPassword env kf password = Inr False)
   \<and> (\<forall>key. decryptPrivateKey env kf password = Inr key \<longrightarrow> verifyPassword env kf password = Inr True)"
  by (cases "decryptPrivateKey env kf password") (auto simp: verifyPassword_def)

theorem verifyPassword_false_on_every_error_witness:
  "decryptPrivateKey test_env corrupted_keyfile test_password = Inl CorruptedKeyfile
   \<and> verifyPassword test_env corrupted_keyfile test_password = Inr False
   \<and> decryptPrivateKey test_env test_keyfile test_wrong_password = Inl InvalidPassword
   \<and> verifyPassword test_env test_keyfile test_wrong_password = Inr False
   \<and> decryptPrivateKey test_env test_keyfile test_password = Inr (replicate 32 1 @ replicate 32 2)
   \<and> verifyPassword test_env test_keyfile test_password = Inr True"
proof -
  have right: "decryptPrivateKey test_env test_keyfile test_password
      = Inr (replicate 32 1 @ replicate 32 2)"
    using decrypt_encrypt_buffer [OF test_env_aead_correct test_encrypt]
    by (simp add: buffer_test_privateKeyBytes)
  from verifyPassword_false_on_every_error [of test_env corrupted_keyfile test_password]
    verifyPassword_false_on_every_error [of test_env test_keyfile test_wrong_password]
    verifyPassword_false_on_every_error [of test_env test_keyfile test_password]
  show ?thesis
    by (simp add: decrypt_corrupted_keyfile test_decrypt_wrong_password right)
qed

text \<open>
  Claim C3 as stated fails: a keyfile whose salt is not hex (\<open>''zz''\<close>) makes decryption
  fail with the corrupted-keyfile error, whatever the primitives and the password, and
  \<open>verifyPassword\<close> returns false instead of passing that error on.
\<close>

theorem verifyPassword_swallows_corrupted_keyfile:
  "\<forall>env password.
     decryptPrivateKey env corrupted_keyfile password = Inl CorruptedKeyfile
     \<and> verifyPassword env corrupted_keyfile password \<noteq> Inl CorruptedKeyfile
     \<and> verifyPassword env corrupted_keyfile password = Inr False"
  by (simp add: decrypt_corrupted_keyfile verifyPassword_def)

subsection \<open>Decrypting with another password\<close>

text \<open>
  Only the UTF-8 encoding of the password reaches the key derivation, so two passwords
  with the same encoding are interchangeable, whatever the primitives are. Unpaired
  surrogates all encode as U+FFFD.
\<close>

lemma same_encoding_same_key:
  "TextEncoder_encode p' = TextEncoder_encode p \<Longrightarrow> deriveKey env p' s = deriveKey env p s"
  by (simp add: deriveKey_def)






text \<open>
  A password that is not \<open>p\<close> is not always refused. Argon2i maps every password to 32
  bytes, so among the passwords a, aa, aaa, ... two derive the same key for the salt at
  hand, and each opens what the other encrypted.
\<close>

lemma TextEncoder_encode_ascii:
  "TextEncoder_encode (replicate n 0x61) = replicate n 0x61"
  by (induction n) (simp_all add: is_high_surrogate_def is_low_surrogate_def utf8_bytes_def)

lemma finite_keys: "finite {dk :: bytes. length dk = 32}"
  using finite_lists_length_eq [of "UNIV :: byte set" 32] by simp

lemma passwords_with_one_key:
  assumes total: "\<forall>pw. \<exists>dk. deriveKey env pw s = Inr dk \<and> length dk = 32"
  shows "\<exists>n m. TextEncoder_encode (replicate n 0x61) \<noteq> TextEncoder_encode (replicate m 0x61)
           \<and> deriveKey env (replicate n 0x61) s = deriveKey env (replicate m 0x61) s"
proof -
  let ?f = "\<lambda>n :: nat. deriveKey env (replicate n 0x61) s"
  have "range ?f \<subseteq> Inr ` {dk. length dk = 32}"
    using total by (auto simp: image_iff)
  then have "finite (range ?f)"
    using finite_keys by (blast intro: finite_subset finite_imageI)
  then have "\<not> inj ?f"
    using finite_imageD [of ?f UNIV] infinite_UNIV_nat by blast
  then obtain n m where "?f n = ?f m" and "n \<noteq> m"
    by (auto simp: inj_def)
  moreover from \<open>n \<noteq> m\<close>
  have "TextEncoder_encode (replicate n 0x61) \<noteq> TextEncoder_encode (replicate m 0x61)"
    by (auto simp: TextEncoder_encode_ascii dest: arg_cong [where f = length])
  ultimately show ?thesis by blast
qed

lemma same_key_same_decryption:
  assumes "deriveKey env p' s = deriveKey env p s" and "hexToBytes (salt kf) = Inr s"
  shows "decryptPrivateKey env kf p' = decryptPrivateKey env kf p"
proof -
  have "decryptPrivateKey_try env kf p' = decryptPrivateKey_try env kf p"
    by (cases "hexToBytes (encrypted kf)") (simp_all add: decryptPrivateKey_try_def assms)
  then show ?thesis by (simp add: decryptPrivateKey_def)
qed

lemma another_encoding_decrypts:
  assumes correct: "aead_correct env"
    and total: "\<forall>pw. \<exists>dk. deriveKey env pw (stake 16 rng) = Inr dk \<and> length dk = 32"
  shows "\<exists>p p'. TextEncoder_encode p' \<noteq> TextEncoder_encode p
           \<and> (\<forall>pub k addr kf rng'. encryptPrivateKey env rng pub k p addr = (Inr kf, rng')
                 \<longrightarrow> decryptPrivateKey env kf p' = Inr (buffer k))"
proof -
  from passwords_with_one_key [OF total] obtain n m where
    differ: "TextEncoder_encode (replicate n 0x61) \<noteq> TextEncoder_encode (replicate m 0x61)"
    and same: "deriveKey env (replicate n 0x61) (stake 16 rng)
                 = deriveKey env (replicate m 0x61) (stake 16 rng)"
    by blast
  have "decryptPrivateKey env kf (replicate n 0x61) = Inr (buffer k)"
    if enc: "encryptPrivateKey env rng pub k (replicate m 0x61) addr = (Inr kf, rng')"
    for pub k addr kf rng'
  proof -
    from encryptPrivateKey_Inr [OF enc] have "hexToBytes (salt kf) = Inr (stake 16 rng)"
      by (auto simp: hexToBytes_bytesToHex)
    with same have "decryptPrivateKey env kf (replicate n 0x61)
        = decryptPrivateKey env kf (replicate m 0x61)"
      by (rule same_key_same_decryption)
    with decrypt_encrypt_buffer [OF correct enc] show ?thesis by simp
  qed
  with differ show ?thesis by blast
qed

subsection \<open>Salt and nonce\<close>

lemma deriveKey_nonce_restricted: "deriveKey (nonce_restricted env) = deriveKey env"
  by (simp add: fun_eq_iff deriveKey_def nonce_restricted_def)

lemma encrypt_nonce_restricted:
  "aes_gcm_encrypt (nonce_restricted env) k (take 12 k) d = aes_gcm_encrypt env k (take 12 k) d"
  by (simp add: nonce_restricted_def)

lemma decrypt_nonce_restricted:
  "aes_gcm_decrypt (nonce_restricted env) k (take 12 k) c = aes_gcm_decrypt env k (take 12 k) c"
  by (simp add: nonce_restricted_def)

lemma importKey_Inr: "importKey dk = Inr ck \<Longrightarrow> ck = dk"
  by (simp add: importKey_def split: if_splits)

lemma encryptPrivateKey_nonce_restricted:
  "encryptPrivateKey (nonce_restricted env) rng pub k p addr = encryptPrivateKey env rng pub k p addr"
  by (auto simp: encryptPrivateKey_def getRandomValues_def NONCE_LENGTH_def
        deriveKey_nonce_restricted encrypt_nonce_restricted Let_def
        dest!: importKey_Inr split: sum.splits)

lemma decryptPrivateKey_try_nonce_restricted:
  "decryptPrivateKey_try (nonce_restricted env) kf p = decryptPrivateKey_try env kf p"
  by (auto simp: decryptPrivateKey_try_def NONCE_LENGTH_def
        deriveKey_nonce_restricted decrypt_nonce_restricted Let_def
        dest!: importKey_Inr split: sum.splits)

lemma decryptPrivateKey_nonce_restricted:
  "decryptPrivateKey (nonce_restricted env) kf p = decryptPrivateKey env kf p"
  by (simp add: decryptPrivateKey_def decryptPrivateKey_try_nonce_restricted)

lemma decryptPrivateKey_steps:
  assumes "hexToBytes (salt kf) = Inr s" and "hexToBytes (encrypted kf) = Inr c"
    and "deriveKey env p s = Inr dk" and "length dk = 32"
  shows "decryptPrivateKey_try env kf p = aes_gcm_decrypt env dk (take 12 dk) c"
  by (simp add: decryptPrivateKey_try_def assms importKey_def NONCE_LENGTH_def)

lemma decryptPrivateKey_try_Inr:
  assumes "decryptPrivateKey_try env kf p = Inr key"
  shows "\<exists>s c dk. hexToBytes (salt kf) = Inr s \<and> hexToBytes (encrypted kf) = Inr c
           \<and> deriveKey env p s = Inr dk
           \<and> aes_gcm_decrypt env dk (take 12 dk) c = Inr key"
proof -
  from assms obtain s where s: "hexToBytes (salt kf) = Inr s"
    by (cases "hexToBytes (salt kf)") (simp_all add: decryptPrivateKey_try_def)
  from assms s obtain c where c: "hexToBytes (encrypted kf) = Inr c"
    by (cases "hexToBytes (encrypted kf)") (simp_all add: decryptPrivateKey_try_def)
  from assms s c obtain dk where dk: "deriveKey env p s = Inr dk"
    by (cases "deriveKey env p s") (simp_all add: decryptPrivateKey_try_def)
  from assms s c dk have "aes_gcm_decrypt env dk (take 12 dk) c = Inr key"
    by (simp add: decryptPrivateKey_try_def importKey_def NONCE_LENGTH_def split: if_splits)
  with s c dk show ?thesis by blast
qed

lemma decryptPrivateKey_Inr:
  assumes "decryptPrivateKey env kf p = Inr key"
  shows "\<exists>s c dk. hexToBytes (salt kf) = Inr s \<and> hexToBytes (encrypted kf) = Inr c
           \<and> deriveKey env p s = Inr dk
           \<and> aes_gcm_decrypt env dk (take 12 dk) c = Inr key"
proof -
  from assms have "decryptPrivateKey_try env kf p = Inr key"
    by (cases "decryptPrivateKey_try env kf p")
       (simp_all add: decryptPrivateKey_def split: if_splits)
  then show ?thesis by (rule decryptPrivateKey_try_Inr)
qed

text \<open>
  Claim C6: \<open>encryptPrivateKey\<close> and \<open>decryptPrivateKey\<close> both call AES-GCM with the
  first 12 bytes of the Argon2-derived key as the nonce, and with no other: restricting
  the cipher to that nonce changes neither. Every call of \<open>encryptPrivateKey\<close> draws
  exactly 16 bytes from the random source and stores them, hex-encoded, as the salt; the
  ciphertext field is the cipher's output alone, and the next call draws the next 16
  bytes. \<open>decryptPrivateKey\<close> derives the key from the password and the keyfile's salt and
  returns what AES-GCM gives for the keyfile's ciphertext under that key with the key's
  first 12 bytes as the nonce; whatever bytes it returns are the plaintext of such a
  call.
\<close>

theorem nonce_is_key_prefix_salt_is_fresh:
  "encryptPrivateKey (nonce_restricted env) rng pub k p addr = encryptPrivateKey env rng pub k p addr
   \<and> decryptPrivateKey (nonce_restricted env) kf' p' = decryptPrivateKey env kf' p'
   \<and> snd (encryptPrivateKey env rng pub k p addr) = sdrop 16 rng
   \<and> (\<forall>kf rng'. encryptPrivateKey env rng pub k p addr = (Inr kf, rng') \<longrightarrow>
         hexToBytes (salt kf) = Inr (stake 16 rng) \<and> length (stake 16 rng) = 16
         \<and> (\<exists>dk c. deriveKey env p (stake 16 rng) = Inr dk
                \<and> aes_gcm_encrypt env dk (take 12 dk) (buffer k) = Inr c
                \<and> encrypted kf = bytesToHex c)
         \<and> (\<forall>pub2 k2 p2 addr2 kf2 rng2.
                encryptPrivateKey env rng' pub2 k2 p2 addr2 = (Inr kf2, rng2) \<longrightarrow>
                hexToBytes (salt kf2) = Inr (stake 16 (sdrop 16 rng))))
   \<and> (\<forall>s c dk. hexToBytes (salt kf') = Inr s \<and> hexToBytes (encrypted kf') = Inr c
         \<and> deriveKey env p' s = Inr dk \<and> length dk = 32 \<longrightarrow>
         decryptPrivateKey env kf' p' =
           (case aes_gcm_decrypt env dk (take 12 dk) c of
              Inr decryptedData \<Rightarrow> Inr decryptedData
            | Inl e \<Rightarrow> if e = OperationError then Inl InvalidPassword
                      else Inl CorruptedKeyfile))
   \<and> (\<forall>key. decryptPrivateKey env kf' p' = Inr key \<longrightarrow>
         (\<exists>s c dk. hexToBytes (salt kf') = Inr s \<and> hexToBytes (encrypted kf') = Inr c
            \<and> deriveKey env p' s = Inr dk
            \<and> aes_gcm_decrypt env dk (take 12 dk) c = Inr key))"
proof -
  have later: "hexToBytes (salt kf2) = Inr (stake 16 (sdrop 16 rng))"
    if first: "encryptPrivateKey env rng pub k p addr = (Inr kf, rng')"
      and second: "encryptPrivateKey env rng' pub2 k2 p2 addr2 = (Inr kf2, rng2)"
    for kf rng' pub2 k2 p2 addr2 kf2 rng2
  proof -
    from first encryptPrivateKey_rng [of env rng pub k p addr] have "rng' = sdrop 16 rng"
      by simp
    with encryptPrivateKey_Inr [OF second] show ?thesis
      by (auto simp: hexToBytes_bytesToHex)
  qed
  have this_call: "hexToBytes (salt kf) = Inr (stake 16 rng)
      \<and> (\<exists>dk c. deriveKey env p (stake 16 rng) = Inr dk
                \<and> aes_gcm_encrypt env dk (take 12 dk) (buffer k) = Inr c
                \<and> encrypted kf = bytesToHex c)"
    if "encryptPrivateKey env rng pub k p addr = (Inr kf, rng')" for kf rng'
    using encryptPrivateKey_Inr [OF that] by (auto simp: hexToBytes_bytesToHex)
  have encryption: "encryptPrivateKey (nonce_restricted env) rng pub k p addr
        = encryptPrivateKey env rng pub k p addr
      \<and> decryptPrivateKey (nonce_restricted env) kf' p' = decryptPrivateKey env kf' p'
      \<and> snd (encryptPrivateKey env rng pub k p addr) = sdrop 16 rng
      \<and> (\<forall>kf rng'. encryptPrivateKey env rng pub k p addr = (Inr kf, rng') \<longrightarrow>
         hexToBytes (salt kf) = Inr (stake 16 rng) \<and> length (stake 16 rng) = 16
         \<and> (\<exists>dk c. deriveKey env p (stake 16 rng) = Inr dk
                \<and> aes_gcm_encrypt env dk (take 12 dk) (buffer k) = Inr c
                \<and> encrypted kf = bytesToHex c)
         \<and> (\<forall>pub2 k2 p2 addr2 kf2 rng2.
                encryptPrivateKey env rng' pub2 k2 p2 addr2 = (Inr kf2, rng2) \<longrightarrow>
                hexToBytes (salt kf2) = Inr (stake 16 (sdrop 16 rng))))"
    using later this_call
    by (simp add: encryptPrivateKey_nonce_restricted decryptPrivateKey_nonce_restricted
          encryptPrivateKey_rng)
  have run: "decryptPrivateKey env kf' p' =
      (case aes_gcm_decrypt env dk (take 12 dk) c of
         Inr decryptedData \<Rightarrow> Inr decryptedData
       | Inl e \<Rightarrow> if e = OperationError then Inl InvalidPassword else Inl CorruptedKeyfile)"
    if "hexToBytes (salt kf') = Inr s \<and> hexToBytes (encrypted kf') = Inr c
         \<and> deriveKey env p' s = Inr dk \<and> length dk = 32" for s c dk
    using that by (simp add: decryptPrivateKey_def decryptPrivateKey_steps)
  have returned: "\<exists>s c dk. hexToBytes (salt kf') = Inr s \<and> hexToBytes (encrypted kf') = Inr c
            \<and> deriveKey env p' s = Inr dk
            \<and> aes_gcm_decrypt env dk (take 12 dk) c = Inr key"
    if "decryptPrivateKey env kf' p' = Inr key" for key
    using that by (rule decryptPrivateKey_Inr)
  from encryption run returned show ?thesis by blast
qed

theorem nonce_is_key_prefix_salt_is_fresh_witness:
  "encryptPrivateKey test_env test_rng test_publicKeyBytes test_privateKeyBytes test_password ''addr''
     = (Inr test_keyfile, sdrop 16 test_rng)
   \<and> hexToBytes (salt test_keyfile) = Inr [0,1,2,3,4,5,6,7,8,9,10,11,12,13,14,15]
   \<and> deriveKey test_env test_password (stake 16 test_rng) = Inr test_derivedKey
   \<and> take 12 test_derivedKey = [0x70, 0x77, 0,1,2,3,4,5,6,7,8,9]
   \<and> encryptPrivateKey (nonce_restricted test_env) test_rng test_publicKeyBytes test_privateKeyBytes
        test_password ''addr'' = (Inr test_keyfile, sdrop 16 test_rng)
   \<and> (\<exists>kf2. encryptPrivateKey test_env (sdrop 16 test_rng) test_publicKeyBytes
                test_privateKeyBytes test_password ''addr''
              = (Inr kf2, sdrop 16 (sdrop 16 test_rng))
            \<and> hexToBytes (salt kf2) = Inr [16,17,18,19,20,21,22,23,24,25,26,27,28,29,30,31])
   \<and> hexToBytes (encrypted test_keyfile) = Inr (replicate 32 1 @ replicate 32 2 @ test_derivedKey)
   \<and> length test_derivedKey = 32
   \<and> aes_gcm_decrypt test_env test_derivedKey (take 12 test_derivedKey)
        (replicate 32 1 @ replicate 32 2 @ test_derivedKey) = Inr (replicate 32 1 @ replicate 32 2)
   \<and> decryptPrivateKey test_env test_keyfile test_password = Inr (replicate 32 1 @ replicate 32 2)
   \<and> (\<exists>s c dk. hexToBytes (salt test_keyfile) = Inr s
          \<and> hexToBytes (encrypted test_keyfile) = Inr c
          \<and> deriveKey test_env test_password s = Inr dk
          \<and> aes_gcm_decrypt test_env dk (take 12 dk) c = Inr (replicate 32 1 @ replicate 32 2))
   \<and> decryptPrivateKey test_env test_keyfile test_wrong_password = Inl InvalidPassword
   \<and> aes_gcm_decrypt test_env test_wrong_derivedKey (take 12 test_wrong_derivedKey)
        (replicate 32 1 @ replicate 32 2 @ test_derivedKey) = Inl OperationError"
proof -
  note C6 = nonce_is_key_prefix_salt_is_fresh
    [of test_env test_rng test_publicKeyBytes test_privateKeyBytes test_password "''addr''"
        test_keyfile test_password]
  note C6_wrong = nonce_is_key_prefix_salt_is_fresh
    [of test_env test_rng test_publicKeyBytes test_privateKeyBytes test_password "''addr''"
        test_keyfile test_wrong_password]
  obtain kf2 where second:
    "encryptPrivateKey test_env (sdrop 16 test_rng) test_publicKeyBytes test_privateKeyBytes
       test_password ''addr'' = (Inr kf2, sdrop 16 (sdrop 16 test_rng))"
    using test_env_encrypt_succeeds by blast
  from C6 test_encrypt second
  have "hexToBytes (salt kf2) = Inr (stake 16 (sdrop 16 test_rng))"
    by blast
  then have next_salt:
    "hexToBytes (salt kf2) = Inr [16,17,18,19,20,21,22,23,24,25,26,27,28,29,30,31]"
    by (simp only: stake_test_rng_next)
  from C6 have first:
    "encryptPrivateKey (nonce_restricted test_env) test_rng test_publicKeyBytes test_privateKeyBytes
        test_password ''addr'' = (Inr test_keyfile, sdrop 16 test_rng)
     \<and> hexToBytes (salt test_keyfile) = Inr [0,1,2,3,4,5,6,7,8,9,10,11,12,13,14,15]"
    by (simp add: test_encrypt stake_test_rng)
  have prefix: "take 12 test_derivedKey = [0x70, 0x77, 0,1,2,3,4,5,6,7,8,9]"
    by (simp add: test_derivedKey_def)
  have salt_hex: "hexToBytes (salt test_keyfile) = Inr (stake 16 test_rng)"
    by (simp add: test_keyfile_def hexToBytes_bytesToHex stake_test_rng)
  have cipher_hex: "hexToBytes (encrypted test_keyfile)
      = Inr (replicate 32 1 @ replicate 32 2 @ test_derivedKey)"
    by (simp add: test_keyfile_def hexToBytes_bytesToHex)
  have key: "deriveKey test_env test_password (stake 16 test_rng) = Inr test_derivedKey"
    by (simp add: stake_test_rng test_deriveKey)
  have verdict: "aes_gcm_decrypt test_env test_derivedKey (take 12 test_derivedKey)
      (replicate 32 1 @ replicate 32 2 @ test_derivedKey) = Inr (replicate 32 1 @ replicate 32 2)"
    by (simp add: test_env_def length_test_derivedKey)
  from C6 salt_hex cipher_hex key length_test_derivedKey
  have "decryptPrivateKey test_env test_keyfile test_password =
      (case aes_gcm_decrypt test_env test_derivedKey (take 12 test_derivedKey)
              (replicate 32 1 @ replicate 32 2 @ test_derivedKey) of
         Inr decryptedData \<Rightarrow> Inr decryptedData
       | Inl e \<Rightarrow> if e = OperationError then Inl InvalidPassword else Inl CorruptedKeyfile)"
    by blast
  then have decrypted: "decryptPrivateKey test_env test_keyfile test_password
      = Inr (replicate 32 1 @ replicate 32 2)"
    by (simp add: verdict)
  with C6 have call: "\<exists>s c dk. hexToBytes (salt test_keyfile) = Inr s
          \<and> hexToBytes (encrypted test_keyfile) = Inr c
          \<and> deriveKey test_env test_password s = Inr dk
          \<and> aes_gcm_decrypt test_env dk (take 12 dk) c = Inr (replicate 32 1 @ replicate 32 2)"
    by blast
  from C6_wrong salt_hex cipher_hex test_deriveKey_wrong length_test_wrong_derivedKey
  have "decryptPrivateKey test_env test_keyfile test_wrong_password =
      (case aes_gcm_decrypt test_env test_wrong_derivedKey (take 12 test_wrong_derivedKey)
              (replicate 32 1 @ replicate 32 2 @ test_derivedKey) of
         Inr decryptedData \<Rightarrow> Inr decryptedData
       | Inl e \<Rightarrow> if e = OperationError then Inl InvalidPassword else Inl CorruptedKeyfile)"
    by blast
  then have refused: "decryptPrivateKey test_env test_keyfile test_wrong_password
      = Inl InvalidPassword"
    by (simp add: test_wrong_password_rejected_by_cipher)
  have part1: "encryptPrivateKey test_env test_rng test_publicKeyBytes test_privateKeyBytes
        test_password ''addr'' = (Inr test_keyfile, sdrop 16 test_rng)
     \<and> hexToBytes (salt test_keyfile) = Inr [0,1,2,3,4,5,6,7,8,9,10,11,12,13,14,15]
     \<and> deriveKey test_env test_password (stake 16 test_rng) = Inr test_derivedKey
     \<and> take 12 test_derivedKey = [0x70, 0x77, 0,1,2,3,4,5,6,7,8,9]
     \<and> encryptPrivateKey (nonce_restricted test_env) test_rng test_publicKeyBytes
          test_privateKeyBytes test_password ''addr'' = (Inr test_keyfile, sdrop 16 test_rng)
     \<and> (\<exists>kf2. encryptPrivateKey test_env (sdrop 16 test_rng) test_publicKeyBytes
                test_privateKeyBytes test_password ''addr''
              = (Inr kf2, sdrop 16 (sdrop 16 test_rng))
            \<and> hexToBytes (salt kf2) = Inr [16,17,18,19,20,21,22,23,24,25,26,27,28,29,30,31])"
    using first prefix second next_salt
    by (simp add: test_encrypt stake_test_rng test_deriveKey)
  from part1 cipher_hex length_test_derivedKey verdict decrypted call refused
    test_wrong_password_rejected_by_cipher
  show ?thesis by blast
qed

subsection \<open>The build flows, step by step\<close>

lemma detectCurveType_length:
  "detectCurveType pk = (if length pk = 96 then BLS12381 else ED25519)"
  by (simp add: detectCurveType_def Let_def)

lemma createAndSignTransaction_no_InvalidParameter:
  "createAndSignTransaction txenv params priv pub curve \<noteq> Inl (InvalidParameter m)"
  by (simp add: createAndSignTransaction_def Let_def split: option.splits)

lemma decryptPrivateKey_no_InvalidParameter:
  "decryptPrivateKey env kf p \<noteq> Inl (InvalidParameter m)"
  by (simp add: decryptPrivateKey_def split: sum.splits)

lemma createAndSignTransaction_errors:
  "createAndSignTransaction txenv params priv pub curve = Inl e
     \<Longrightarrow> e = EncodingMismatch \<or> e = SigningFailure"
  by (auto simp: createAndSignTransaction_def Let_def split: option.splits)

lemma createSignedOrder_decrypted:
  "decryptPrivateKey env (encryptedKeyfile storedKey) password = Inr key \<Longrightarrow>
   createSignedOrder env txenv storedKey password orderParams networkParams =
     (createAndSignTransaction txenv (createSignedOrder_txParams orderParams networkParams)
        (privateKeyHex_of key) (EncryptedCanopyKeyfile.publicKey (encryptedKeyfile storedKey))
        (detectCurveType (EncryptedCanopyKeyfile.publicKey (encryptedKeyfile storedKey))),
      Some key)"
  by (simp add: createSignedOrder_def Let_def)

lemma createSignedEditOrder_decrypted:
  "decryptPrivateKey env (encryptedKeyfile storedKey) password = Inr key \<Longrightarrow>
   createSignedEditOrder env txenv storedKey password editParams networkParams =
     (createAndSignTransaction txenv (createSignedEditOrder_txParams editParams networkParams)
        (privateKeyHex_of key) (EncryptedCanopyKeyfile.publicKey (encryptedKeyfile storedKey))
        (detectCurveType (EncryptedCanopyKeyfile.publicKey (encryptedKeyfile storedKey))),
      Some key)"
  by (simp add: createSignedEditOrder_def Let_def)

lemma createSignedDeleteOrder_decrypted:
  "decryptPrivateKey env (encryptedKeyfile storedKey) password = Inr key \<Longrightarrow>
   createSignedDeleteOrder env txenv storedKey password deleteParams networkParams =
     (createAndSignTransaction txenv (createSignedDeleteOrder_txParams deleteParams networkParams)
        (privateKeyHex_of key) (EncryptedCanopyKeyfile.publicKey (encryptedKeyfile storedKey))
        (detectCurveType (EncryptedCanopyKeyfile.publicKey (encryptedKeyfile storedKey))),
      Some key)"
  by (simp add: createSignedDeleteOrder_def Let_def)

lemma createSignedOrder_not_decrypted:
  "decryptPrivateKey env (encryptedKeyfile storedKey) password = Inl e \<Longrightarrow>
   createSignedOrder env txenv storedKey password orderParams networkParams = (Inl e, None)"
  by (simp add: createSignedOrder_def)

lemma createSignedEditOrder_not_decrypted:
  "decryptPrivateKey env (encryptedKeyfile storedKey) password = Inl e \<Longrightarrow>
   createSignedEditOrder env txenv storedKey password editParams networkParams = (Inl e, None)"
  by (simp add: createSignedEditOrder_def)

lemma createSignedDeleteOrder_not_decrypted:
  "decryptPrivateKey env (encryptedKeyfile storedKey) password = Inl e \<Longrightarrow>
   createSignedDeleteOrder env txenv storedKey password deleteParams networkParams = (Inl e, None)"
  by (simp add: createSignedDeleteOrder_def)

lemma test_decrypt:
  "decryptPrivateKey test_env (encryptedKeyfile test_account) test_password
     = Inr (replicate 32 1 @ replicate 32 2)"
  using decrypt_encrypt_buffer [OF test_env_aead_correct test_encrypt]
  by (simp add: test_account_def buffer_test_privateKeyBytes)

lemma test_publicKey_length:
  "length (EncryptedCanopyKeyfile.publicKey (encryptedKeyfile test_account)) = 64"
  by (simp add: test_account_def test_keyfile_def length_bytesToHex)

subsection \<open>The test instance in the flows\<close>

lemma test_txenv_signs:
  "\<exists>req. createAndSignTransaction test_txenv params priv pub curve = Inr req"
  by (simp add: createAndSignTransaction_def test_txenv_def Let_def)

lemma test_txenv_signature_length: "ed25519_signature_length test_txenv"
  by (simp add: ed25519_signature_length_def test_txenv_def)

lemma decryptPrivateKey_publicKey_update:
  "decryptPrivateKey env (kf\<lparr>EncryptedCanopyKeyfile.publicKey := pk\<rparr>) p = decryptPrivateKey env kf p"
proof -
  have fields: "salt (kf\<lparr>EncryptedCanopyKeyfile.publicKey := pk\<rparr>) = salt kf"
    "encrypted (kf\<lparr>EncryptedCanopyKeyfile.publicKey := pk\<rparr>) = encrypted kf"
    by simp_all
  show ?thesis
    unfolding decryptPrivateKey_def decryptPrivateKey_try_def fields by (rule refl)
qed

lemma bls_decrypt:
  "decryptPrivateKey test_env (encryptedKeyfile bls_account) test_password
     = Inr (replicate 32 1 @ replicate 32 2)"
  using test_decrypt
  by (simp add: bls_account_def test_account_def decryptPrivateKey_publicKey_update)

lemma bls_publicKey_length:
  "length (EncryptedCanopyKeyfile.publicKey (encryptedKeyfile bls_account)) = 96"
  by (simp add: bls_account_def length_bytesToHex)

subsection \<open>Parameter validation\<close>

text \<open>
  On every number but NaN, failing \<open>x < 0\<close> is \<open>0 \<le> x\<close> and failing \<open>x \<le> 0\<close> is
  \<open>0 < x\<close>. NaN fails every comparison.
\<close>

lemma not_js_lt_zero: "x \<noteq> NaN \<Longrightarrow> \<not> js_lt x (Finite 0) \<longleftrightarrow> js_le (Finite 0) x"
  by (cases x) auto

lemma not_js_le_zero: "x \<noteq> NaN \<Longrightarrow> \<not> js_le x (Finite 0) \<longleftrightarrow> js_lt (Finite 0) x"
  by (cases x) auto

lemma validateTransactionParams_ok_iff:
  "validateTransactionParams params = Inr () \<longleftrightarrow>
     TransactionParams.type params \<noteq> [] \<and> TransactionParams.msg params \<noteq> None
     \<and> \<not> js_lt (TransactionParams.fee params) (Finite 0)
     \<and> \<not> js_le (TransactionParams.networkID params) (Finite 0)
     \<and> \<not> js_le (TransactionParams.chainID params) (Finite 0)
     \<and> \<not> js_lt (height params) (Finite 0)
     \<and> length (TransactionParams.memo params) \<le> 200"
  by (auto simp: validateTransactionParams_def)

lemma validateTransactionParams_error:
  "validateTransactionParams params = Inl e \<Longrightarrow> \<exists>m. e = InvalidParameter m"
  by (auto simp: validateTransactionParams_def split: if_splits)

lemma validateTransactionParams_rejects:
  assumes "validateTransactionParams params \<noteq> Inr ()"
  shows "\<exists>m. validateTransactionParams params = Inl (InvalidParameter m)"
proof (cases "validateTransactionParams params")
  case (Inl e)
  then show ?thesis using validateTransactionParams_error by blast
next
  case (Inr u)
  with assms show ?thesis by simp
qed

lemma validateTransactionParams_numbers:
  assumes "TransactionParams.fee params \<noteq> NaN" and "TransactionParams.networkID params \<noteq> NaN"
    and "TransactionParams.chainID params \<noteq> NaN" and "height params \<noteq> NaN"
  shows "validateTransactionParams params = Inr () \<longleftrightarrow>
     TransactionParams.type params \<noteq> [] \<and> TransactionParams.msg params \<noteq> None
     \<and> js_le (Finite 0) (TransactionParams.fee params)
     \<and> js_lt (Finite 0) (TransactionParams.networkID params)
     \<and> js_lt (Finite 0) (TransactionParams.chainID params)
     \<and> js_le (Finite 0) (height params)
     \<and> length (TransactionParams.memo params) \<le> 200"
  by (simp add: validateTransactionParams_ok_iff not_js_lt_zero [OF assms(1)]
        not_js_le_zero [OF assms(2)] not_js_le_zero [OF assms(3)] not_js_lt_zero [OF assms(4)])

text \<open>
  A NaN fee passes the validator: \<^verbatim>\<open>typeof NaN\<close> is \<^verbatim>\<open>"number"\<close> and \<^verbatim>\<open>NaN < 0\<close> is
  false. So do a NaN networkID, chainID and height.
\<close>

lemma test_txParams_fields:
  "TransactionParams.type test_txParams = ''createOrder''
   \<and> TransactionParams.msg test_txParams \<noteq> None
   \<and> TransactionParams.fee test_txParams = Finite 10000
   \<and> TransactionParams.networkID test_txParams = Finite 1
   \<and> TransactionParams.chainID test_txParams = Finite 1
   \<and> height test_txParams = Finite 500
   \<and> TransactionParams.memo test_txParams = ''''"
  by (simp add: test_txParams_def createSignedOrder_txParams_def test_networkParams_def Let_def)

lemma validateTransactionParams_accepts_NaN:
  "validateTransactionParams
     (test_txParams\<lparr>TransactionParams.fee := NaN, TransactionParams.networkID := NaN,
                    TransactionParams.chainID := NaN, height := NaN\<rparr>) = Inr ()"
  by (simp add: validateTransactionParams_ok_iff test_txParams_fields)

lemma createSignedOrder_no_InvalidParameter:
  "fst (createSignedOrder env txenv storedKey password orderParams networkParams)
      \<noteq> Inl (InvalidParameter m)"
proof (cases "decryptPrivateKey env (encryptedKeyfile storedKey) password")
  case (Inl e)
  with decryptPrivateKey_no_InvalidParameter [of env "encryptedKeyfile storedKey" password m]
  show ?thesis by (auto simp: createSignedOrder_not_decrypted)
next
  case (Inr key)
  then show ?thesis
    by (simp add: createSignedOrder_decrypted createAndSignTransaction_no_InvalidParameter)
qed

lemma createSignedEditOrder_no_InvalidParameter:
  "fst (createSignedEditOrder env txenv storedKey password editParams networkParams)
      \<noteq> Inl (InvalidParameter m)"
proof (cases "decryptPrivateKey env (encryptedKeyfile storedKey) password")
  case (Inl e)
  with decryptPrivateKey_no_InvalidParameter [of env "encryptedKeyfile storedKey" password m]
  show ?thesis by (auto simp: createSignedEditOrder_not_decrypted)
next
  case (Inr key)
  then show ?thesis
    by (simp add: createSignedEditOrder_decrypted createAndSignTransaction_no_InvalidParameter)
qed

lemma createSignedDeleteOrder_no_InvalidParameter:
  "fst (createSignedDeleteOrder env txenv storedKey password deleteParams networkParams)
      \<noteq> Inl (InvalidParameter m)"
proof (cases "decryptPrivateKey env (encryptedKeyfile storedKey) password")
  case (Inl e)
  with decryptPrivateKey_no_InvalidParameter [of env "encryptedKeyfile storedKey" password m]
  show ?thesis by (auto simp: createSignedDeleteOrder_not_decrypted)
next
  case (Inr key)
  then show ?thesis
    by (simp add: createSignedDeleteOrder_decrypted createAndSignTransaction_no_InvalidParameter)
qed

lemma createAndSignTransaction_fee:
  "createAndSignTransaction txenv params priv pub curve = Inr req
     \<Longrightarrow> UnsignedTransaction.fee (raw_transaction req) = TransactionParams.fee params"
  by (auto simp: createAndSignTransaction_def Let_def UnsignedTransaction.defs RawTransaction.defs
        split: option.splits)

text \<open>
  Where \<open>createAndSignTransaction\<close> fails and where it returns: the codec's and the
  signer's verdicts on the unsigned transaction decide, and nothing else.
\<close>

lemma createAndSignTransaction_outcomes:
  "(let unsignedTx =
          \<lparr>UnsignedTransaction.type = TransactionParams.type params,
           msg = TransactionParams.msg params,
           time = Date_now txenv * 1000,
           createdHeight = height params,
           fee = TransactionParams.fee params,
           memo = TransactionParams.memo params,
           networkID = TransactionParams.networkID params,
           chainID = TransactionParams.chainID params\<rparr>
    in (createAndSignTransaction txenv params privateKeyHex publicKeyHex curveType
          = Inl EncodingMismatch
        \<longleftrightarrow> getSignBytesProtobuf txenv unsignedTx = None)
     \<and> (createAndSignTransaction txenv params privateKeyHex publicKeyHex curveType
          = Inl SigningFailure
        \<longleftrightarrow> (\<exists>signBytes. getSignBytesProtobuf txenv unsignedTx = Some signBytes
              \<and> signMessage txenv signBytes privateKeyHex curveType = None))
     \<and> ((\<exists>req. createAndSignTransaction txenv params privateKeyHex publicKeyHex curveType
                 = Inr req)
        \<longleftrightarrow> (\<exists>signBytes signatureHex. getSignBytesProtobuf txenv unsignedTx = Some signBytes
              \<and> signMessage txenv signBytes privateKeyHex curveType = Some signatureHex)))"
  unfolding Let_def
proof (intro conjI)
  show "createAndSignTransaction txenv params privateKeyHex publicKeyHex curveType
          = Inl EncodingMismatch
        \<longleftrightarrow> getSignBytesProtobuf txenv
              \<lparr>UnsignedTransaction.type = TransactionParams.type params,
               msg = TransactionParams.msg params,
               time = Date_now txenv * 1000,
               createdHeight = height params,
               fee = TransactionParams.fee params,
               memo = TransactionParams.memo params,
               networkID = TransactionParams.networkID params,
               chainID = TransactionParams.chainID params\<rparr> = None"
    by (simp add: createAndSignTransaction_def Let_def split: option.splits)
  show "createAndSignTransaction txenv params privateKeyHex publicKeyHex curveType
          = Inl SigningFailure
        \<longleftrightarrow> (\<exists>signBytes. getSignBytesProtobuf txenv
              \<lparr>UnsignedTransaction.type = TransactionParams.type params,
               msg = TransactionParams.msg params,
               time = Date_now txenv * 1000,
               createdHeight = height params,
               fee = TransactionParams.fee params,
               memo = TransactionParams.memo params,
               networkID = TransactionParams.networkID params,
               chainID = TransactionParams.chainID params\<rparr> = Some signBytes
              \<and> signMessage txenv signBytes privateKeyHex curveType = None)"
    by (simp add: createAndSignTransaction_def Let_def split: option.splits)
  show "(\<exists>req. createAndSignTransaction txenv params privateKeyHex publicKeyHex curveType
                 = Inr req)
        \<longleftrightarrow> (\<exists>signBytes signatureHex. getSignBytesProtobuf txenv
              \<lparr>UnsignedTransaction.type = TransactionParams.type params,
               msg = TransactionParams.msg params,
               time = Date_now txenv * 1000,
               createdHeight = height params,
               fee = TransactionParams.fee params,
               memo = TransactionParams.memo params,
               networkID = TransactionParams.networkID params,
               chainID = TransactionParams.chainID params\<rparr> = Some signBytes
              \<and> signMessage txenv signBytes privateKeyHex curveType = Some signatureHex)"
    by (simp add: createAndSignTransaction_def Let_def split: option.splits)
qed

lemma failing_signer_fails:
  "createAndSignTransaction failing_signer_txenv params priv pub curve = Inl SigningFailure"
  by (simp add: createAndSignTransaction_def failing_signer_txenv_def test_txenv_def Let_def)

lemma test_decrypt_wrong_password_account:
  "decryptPrivateKey test_env (encryptedKeyfile test_account) test_wrong_password
     = Inl InvalidPassword"
  using test_decrypt_wrong_password by (simp add: test_account_def)

text \<open>
  Claim C1, as amended. The validator: on a request whose numeric fields are not NaN,
  \<open>validateTransactionParams\<close> succeeds exactly when the message type is non-empty, the
  payload is present, fee \<open>\<ge> 0\<close>, networkID \<open>> 0\<close>, chainID \<open>> 0\<close>, height \<open>\<ge> 0\<close> and the
  memo has at most 200 characters; whenever it does not succeed it fails with an
  \<open>InvalidParameter\<close> error, in particular for fee \<open>-1\<close>, networkID \<open>0\<close>, a memo of 201
  characters and height \<open>-1\<close>; it takes no cryptographic primitive. The build operations
  do not call it and never fail with \<open>InvalidParameter\<close>:
  \<open>createAndSignTransaction\<close> fails with the encoding error exactly when the codec fails,
  with the signing error exactly when the codec succeeds and the signer fails, with no
  other error, and returns a transaction exactly when both succeed; each of the three
  flows fails with the error of the decryption when that fails, and is otherwise
  \<open>createAndSignTransaction\<close> on the flow's parameters, the hex of the decrypted key and the
  detected curve.
\<close>

theorem validation_is_separate_from_building:
  "(TransactionParams.fee params \<noteq> NaN \<and> TransactionParams.networkID params \<noteq> NaN
      \<and> TransactionParams.chainID params \<noteq> NaN \<and> height params \<noteq> NaN \<longrightarrow>
      (validateTransactionParams params = Inr () \<longleftrightarrow>
         TransactionParams.type params \<noteq> [] \<and> TransactionParams.msg params \<noteq> None
         \<and> js_le (Finite 0) (TransactionParams.fee params)
         \<and> js_lt (Finite 0) (TransactionParams.networkID params)
         \<and> js_lt (Finite 0) (TransactionParams.chainID params)
         \<and> js_le (Finite 0) (height params)
         \<and> length (TransactionParams.memo params) \<le> 200))
   \<and> (validateTransactionParams params \<noteq> Inr ()
        \<longrightarrow> (\<exists>m. validateTransactionParams params = Inl (InvalidParameter m)))
   \<and> (TransactionParams.fee params = Finite (- 1)
        \<longrightarrow> (\<exists>m. validateTransactionParams params = Inl (InvalidParameter m)))
   \<and> (TransactionParams.networkID params = Finite 0
        \<longrightarrow> (\<exists>m. validateTransactionParams params = Inl (InvalidParameter m)))
   \<and> (length (TransactionParams.memo params) = 201
        \<longrightarrow> (\<exists>m. validateTransactionParams params = Inl (InvalidParameter m)))
   \<and> (height params = Finite (- 1)
        \<longrightarrow> (\<exists>m. validateTransactionParams params = Inl (InvalidParameter m)))
   \<and> (\<forall>m. createAndSignTransaction txenv params privateKeyHex publicKeyHex curveType
              \<noteq> Inl (InvalidParameter m))
   \<and> (\<forall>m. fst (createSignedOrder env txenv storedKey password orderParams networkParams)
              \<noteq> Inl (InvalidParameter m))
   \<and> (\<forall>m. fst (createSignedEditOrder env txenv storedKey password editParams networkParams)
              \<noteq> Inl (InvalidParameter m))
   \<and> (\<forall>m. fst (createSignedDeleteOrder env txenv storedKey password deleteParams networkParams)
              \<noteq> Inl (InvalidParameter m))
   \<and> (let unsignedTx =
            \<lparr>UnsignedTransaction.type = TransactionParams.type params,
             msg = TransactionParams.msg params,
             time = Date_now txenv * 1000,
             createdHeight = height params,
             fee = TransactionParams.fee params,
             memo = TransactionParams.memo params,
             networkID = TransactionParams.networkID params,
             chainID = TransactionParams.chainID params\<rparr>
       in (createAndSignTransaction txenv params privateKeyHex publicKeyHex curveType
             = Inl EncodingMismatch
           \<longleftrightarrow> getSignBytesProtobuf txenv unsignedTx = None)
        \<and> (createAndSignTransaction txenv params privateKeyHex publicKeyHex curveType
             = Inl SigningFailure
           \<longleftrightarrow> (\<exists>signBytes. getSignBytesProtobuf txenv unsignedTx = Some signBytes
                 \<and> signMessage txenv signBytes privateKeyHex curveType = None))
        \<and> ((\<exists>req. createAndSignTransaction txenv params privateKeyHex publicKeyHex curveType
                    = Inr req)
           \<longleftrightarrow> (\<exists>signBytes signatureHex. getSignBytesProtobuf txenv unsignedTx = Some signBytes
                 \<and> signMessage txenv signBytes privateKeyHex curveType = Some signatureHex)))
   \<and> (\<forall>e. createAndSignTransaction txenv params privateKeyHex publicKeyHex curveType = Inl e
          \<longrightarrow> e = EncodingMismatch \<or> e = SigningFailure)
   \<and> (\<forall>e. decryptPrivateKey env (encryptedKeyfile storedKey) password = Inl e \<longrightarrow>
          fst (createSignedOrder env txenv storedKey password orderParams networkParams) = Inl e
          \<and> fst (createSignedEditOrder env txenv storedKey password editParams networkParams)
              = Inl e
          \<and> fst (createSignedDeleteOrder env txenv storedKey password deleteParams networkParams)
              = Inl e)
   \<and> (\<forall>key. decryptPrivateKey env (encryptedKeyfile storedKey) password = Inr key \<longrightarrow>
          fst (createSignedOrder env txenv storedKey password orderParams networkParams)
            = createAndSignTransaction txenv (createSignedOrder_txParams orderParams networkParams)
                (privateKeyHex_of key)
                (EncryptedCanopyKeyfile.publicKey (encryptedKeyfile storedKey))
                (detectCurveType (EncryptedCanopyKeyfile.publicKey (encryptedKeyfile storedKey)))
          \<and> fst (createSignedEditOrder env txenv storedKey password editParams networkParams)
            = createAndSignTransaction txenv
                (createSignedEditOrder_txParams editParams networkParams)
                (privateKeyHex_of key)
                (EncryptedCanopyKeyfile.publicKey (encryptedKeyfile storedKey))
                (detectCurveType (EncryptedCanopyKeyfile.publicKey (encryptedKeyfile storedKey)))
          \<and> fst (createSignedDeleteOrder env txenv storedKey password deleteParams networkParams)
            = createAndSignTransaction txenv
                (createSignedDeleteOrder_txParams deleteParams networkParams)
                (privateKeyHex_of key)
                (EncryptedCanopyKeyfile.publicKey (encryptedKeyfile storedKey))
                (detectCurveType (EncryptedCanopyKeyfile.publicKey (encryptedKeyfile storedKey))))"
proof -
  have accepts: "TransactionParams.fee params \<noteq> NaN \<and> TransactionParams.networkID params \<noteq> NaN
      \<and> TransactionParams.chainID params \<noteq> NaN \<and> height params \<noteq> NaN \<longrightarrow>
      (validateTransactionParams params = Inr () \<longleftrightarrow>
         TransactionParams.type params \<noteq> [] \<and> TransactionParams.msg params \<noteq> None
         \<and> js_le (Finite 0) (TransactionParams.fee params)
         \<and> js_lt (Finite 0) (TransactionParams.networkID params)
         \<and> js_lt (Finite 0) (TransactionParams.chainID params)
         \<and> js_le (Finite 0) (height params)
         \<and> length (TransactionParams.memo params) \<le> 200)"
    using validateTransactionParams_numbers [of params] by blast
  have bad: "validateTransactionParams params \<noteq> Inr ()
        \<longrightarrow> (\<exists>m. validateTransactionParams params = Inl (InvalidParameter m))"
    using validateTransactionParams_rejects by blast
  have fee: "TransactionParams.fee params = Finite (- 1)
        \<longrightarrow> (\<exists>m. validateTransactionParams params = Inl (InvalidParameter m))"
    using validateTransactionParams_rejects [of params]
    by (simp add: validateTransactionParams_ok_iff)
  have net: "TransactionParams.networkID params = Finite 0
        \<longrightarrow> (\<exists>m. validateTransactionParams params = Inl (InvalidParameter m))"
    using validateTransactionParams_rejects [of params]
    by (simp add: validateTransactionParams_ok_iff)
  have mem: "length (TransactionParams.memo params) = 201
        \<longrightarrow> (\<exists>m. validateTransactionParams params = Inl (InvalidParameter m))"
    using validateTransactionParams_rejects [of params]
    by (simp add: validateTransactionParams_ok_iff)
  have hgt: "height params = Finite (- 1)
        \<longrightarrow> (\<exists>m. validateTransactionParams params = Inl (InvalidParameter m))"
    using validateTransactionParams_rejects [of params]
    by (simp add: validateTransactionParams_ok_iff)
  have build: "\<forall>m. createAndSignTransaction txenv params privateKeyHex publicKeyHex curveType
              \<noteq> Inl (InvalidParameter m)"
    by (simp add: createAndSignTransaction_no_InvalidParameter)
  have create: "\<forall>m. fst (createSignedOrder env txenv storedKey password orderParams networkParams)
              \<noteq> Inl (InvalidParameter m)"
    by (simp add: createSignedOrder_no_InvalidParameter)
  have edit: "\<forall>m. fst (createSignedEditOrder env txenv storedKey password editParams networkParams)
              \<noteq> Inl (InvalidParameter m)"
    by (simp add: createSignedEditOrder_no_InvalidParameter)
  have delete: "\<forall>m. fst (createSignedDeleteOrder env txenv storedKey password deleteParams
                           networkParams) \<noteq> Inl (InvalidParameter m)"
    by (simp add: createSignedDeleteOrder_no_InvalidParameter)
  have errors: "\<forall>e. createAndSignTransaction txenv params privateKeyHex publicKeyHex curveType
            = Inl e \<longrightarrow> e = EncodingMismatch \<or> e = SigningFailure"
    using createAndSignTransaction_errors by blast
  have locked: "\<forall>e. decryptPrivateKey env (encryptedKeyfile storedKey) password = Inl e \<longrightarrow>
          fst (createSignedOrder env txenv storedKey password orderParams networkParams) = Inl e
          \<and> fst (createSignedEditOrder env txenv storedKey password editParams networkParams)
              = Inl e
          \<and> fst (createSignedDeleteOrder env txenv storedKey password deleteParams networkParams)
              = Inl e"
    by (simp add: createSignedOrder_not_decrypted createSignedEditOrder_not_decrypted
          createSignedDeleteOrder_not_decrypted)
  have unlocked: "\<forall>key. decryptPrivateKey env (encryptedKeyfile storedKey) password = Inr key \<longrightarrow>
          fst (createSignedOrder env txenv storedKey password orderParams networkParams)
            = createAndSignTransaction txenv (createSignedOrder_txParams orderParams networkParams)
                (privateKeyHex_of key)
                (EncryptedCanopyKeyfile.publicKey (encryptedKeyfile storedKey))
                (detectCurveType (EncryptedCanopyKeyfile.publicKey (encryptedKeyfile storedKey)))
          \<and> fst (createSignedEditOrder env txenv storedKey password editParams networkParams)
            = createAndSignTransaction txenv
                (createSignedEditOrder_txParams editParams networkParams)
                (privateKeyHex_of key)
                (EncryptedCanopyKeyfile.publicKey (encryptedKeyfile storedKey))
                (detectCurveType (EncryptedCanopyKeyfile.publicKey (encryptedKeyfile storedKey)))
          \<and> fst (createSignedDeleteOrder env txenv storedKey password deleteParams networkParams)
            = createAndSignTransaction txenv
                (createSignedDeleteOrder_txParams deleteParams networkParams)
                (privateKeyHex_of key)
                (EncryptedCanopyKeyfile.publicKey (encryptedKeyfile storedKey))
                (detectCurveType (EncryptedCanopyKeyfile.publicKey (encryptedKeyfile storedKey)))"
    by (simp add: createSignedOrder_decrypted createSignedEditOrder_decrypted
          createSignedDeleteOrder_decrypted)
  show ?thesis
    by (intro conjI)
       (rule accepts bad fee net mem hgt build create edit delete
          createAndSignTransaction_outcomes errors locked unlocked)+
qed

theorem validation_is_separate_from_building_witness:
  "validateTransactionParams test_txParams = Inr ()
   \<and> TransactionParams.fee fee_minus_one_params = Finite (- 1)
   \<and> validateTransactionParams fee_minus_one_params
       = Inl (InvalidParameter ''Invalid fee: must be a non-negative number'')
   \<and> validateTransactionParams (test_txParams\<lparr>TransactionParams.networkID := Finite 0\<rparr>)
       = Inl (InvalidParameter ''Invalid network ID: must be a positive number'')
   \<and> validateTransactionParams (test_txParams\<lparr>height := Finite (- 1)\<rparr>)
       = Inl (InvalidParameter ''Invalid height: must be a non-negative number'')
   \<and> validateTransactionParams (test_txParams\<lparr>TransactionParams.memo := replicate 201 (CHR ''m'')\<rparr>)
       = Inl (InvalidParameter ''Invalid memo: must be 200 characters or less'')
   \<and> validateTransactionParams (test_txParams\<lparr>TransactionParams.memo := replicate 200 (CHR ''m'')\<rparr>)
       = Inr ()
   \<and> (\<forall>m. createAndSignTransaction test_txenv fee_minus_one_params ''0101'' ''abab'' ED25519
             \<noteq> Inl (InvalidParameter m))
   \<and> (\<exists>req. createAndSignTransaction test_txenv fee_minus_one_params ''0101'' ''abab'' ED25519
              = Inr req)
   \<and> createAndSignTransaction failing_signer_txenv test_txParams ''0101'' ''abab'' ED25519
       = Inl SigningFailure
   \<and> fst (createSignedOrder test_env test_txenv test_account test_wrong_password
            test_orderParams test_networkParams) = Inl InvalidPassword
   \<and> fst (createSignedOrder test_env test_txenv test_account test_password
            test_orderParams test_networkParams)
       = createAndSignTransaction test_txenv test_txParams
           (privateKeyHex_of (replicate 32 1 @ replicate 32 2))
           (EncryptedCanopyKeyfile.publicKey (encryptedKeyfile test_account)) ED25519
   \<and> (\<exists>req. fst (createSignedOrder test_env test_txenv test_account test_password
                   test_orderParams test_networkParams) = Inr req)"
proof -
  note fields = test_txParams_fields
  have numbers: "TransactionParams.fee test_txParams \<noteq> NaN
      \<and> TransactionParams.networkID test_txParams \<noteq> NaN
      \<and> TransactionParams.chainID test_txParams \<noteq> NaN \<and> height test_txParams \<noteq> NaN"
    by (simp add: fields)
  have bounds: "TransactionParams.type test_txParams \<noteq> [] \<and> TransactionParams.msg test_txParams \<noteq> None
      \<and> js_le (Finite 0) (TransactionParams.fee test_txParams)
      \<and> js_lt (Finite 0) (TransactionParams.networkID test_txParams)
      \<and> js_lt (Finite 0) (TransactionParams.chainID test_txParams)
      \<and> js_le (Finite 0) (height test_txParams)
      \<and> length (TransactionParams.memo test_txParams) \<le> 200"
    by (simp add: fields)
  from validation_is_separate_from_building [of test_txParams] numbers bounds
  have accepted: "validateTransactionParams test_txParams = Inr ()" by blast
  have fee: "TransactionParams.fee fee_minus_one_params = Finite (- 1)"
    by (simp add: fee_minus_one_params_def)
  have bad: "validateTransactionParams fee_minus_one_params
       = Inl (InvalidParameter ''Invalid fee: must be a non-negative number'')"
    by (simp add: validateTransactionParams_def fee_minus_one_params_def fields)
  have net: "validateTransactionParams (test_txParams\<lparr>TransactionParams.networkID := Finite 0\<rparr>)
       = Inl (InvalidParameter ''Invalid network ID: must be a positive number'')"
    by (simp add: validateTransactionParams_def fields)
  have hgt: "validateTransactionParams (test_txParams\<lparr>height := Finite (- 1)\<rparr>)
       = Inl (InvalidParameter ''Invalid height: must be a non-negative number'')"
    by (simp add: validateTransactionParams_def fields)
  have long: "validateTransactionParams
        (test_txParams\<lparr>TransactionParams.memo := replicate 201 (CHR ''m'')\<rparr>)
       = Inl (InvalidParameter ''Invalid memo: must be 200 characters or less'')"
    by (simp add: validateTransactionParams_def fields)
  have short: "validateTransactionParams
        (test_txParams\<lparr>TransactionParams.memo := replicate 200 (CHR ''m'')\<rparr>) = Inr ()"
    by (simp add: validateTransactionParams_def fields)
  from validation_is_separate_from_building
    [of fee_minus_one_params test_txenv "''0101''" "''abab''" ED25519]
  have never: "\<forall>m. createAndSignTransaction test_txenv fee_minus_one_params ''0101'' ''abab'' ED25519
             \<noteq> Inl (InvalidParameter m)" by blast
  have signed: "\<exists>req. createAndSignTransaction test_txenv fee_minus_one_params ''0101'' ''abab''
      ED25519 = Inr req"
    by (rule test_txenv_signs)
  have unsigned: "createAndSignTransaction failing_signer_txenv test_txParams ''0101'' ''abab''
      ED25519 = Inl SigningFailure"
    by (rule failing_signer_fails)
  note flows = validation_is_separate_from_building
    [where env = test_env and txenv = test_txenv and storedKey = test_account
      and orderParams = test_orderParams and networkParams = test_networkParams]
  from flows [where password = test_wrong_password] test_decrypt_wrong_password_account
  have locked: "fst (createSignedOrder test_env test_txenv test_account test_wrong_password
            test_orderParams test_networkParams) = Inl InvalidPassword"
    by blast
  have curve: "detectCurveType (EncryptedCanopyKeyfile.publicKey (encryptedKeyfile test_account))
      = ED25519"
    by (simp add: detectCurveType_length test_publicKey_length)
  from flows [where password = test_password] test_decrypt
  have "fst (createSignedOrder test_env test_txenv test_account test_password
            test_orderParams test_networkParams)
       = createAndSignTransaction test_txenv
           (createSignedOrder_txParams test_orderParams test_networkParams)
           (privateKeyHex_of (replicate 32 1 @ replicate 32 2))
           (EncryptedCanopyKeyfile.publicKey (encryptedKeyfile test_account))
           (detectCurveType (EncryptedCanopyKeyfile.publicKey (encryptedKeyfile test_account)))"
    by blast
  then have unlocked: "fst (createSignedOrder test_env test_txenv test_account test_password
            test_orderParams test_networkParams)
       = createAndSignTransaction test_txenv test_txParams
           (privateKeyHex_of (replicate 32 1 @ replicate 32 2))
           (EncryptedCanopyKeyfile.publicKey (encryptedKeyfile test_account)) ED25519"
    by (simp only: curve test_txParams_def)
  have flow_signed: "\<exists>req. fst (createSignedOrder test_env test_txenv test_account test_password
                   test_orderParams test_networkParams) = Inr req"
    unfolding unlocked by (rule test_txenv_signs)
  show ?thesis
    by (intro conjI)
       (rule accepted fee bad net hgt long short never signed unsigned locked unlocked
          flow_signed)+
qed

text \<open>
  Claim C1 as stated fails: with fee \<open>-1\<close>, \<open>createAndSignTransaction\<close> fails with
  \<open>InvalidParameter\<close> for no codec and no signer; where they succeed, it and
  \<open>createSignedOrder\<close> return a signed transaction that carries the fee \<open>-1\<close>.
\<close>

theorem negative_fee_is_signed:
  "TransactionParams.fee fee_minus_one_params = Finite (- 1)
   \<and> (\<forall>txenv privateKeyHex publicKeyHex curveType m.
         createAndSignTransaction txenv fee_minus_one_params privateKeyHex publicKeyHex curveType
           \<noteq> Inl (InvalidParameter m))
   \<and> (\<exists>req. createAndSignTransaction test_txenv fee_minus_one_params ''0101'' ''abab'' ED25519
              = Inr req
            \<and> UnsignedTransaction.fee (raw_transaction req) = Finite (- 1))
   \<and> NetworkParams.fee fee_minus_one_networkParams = Finite (- 1)
   \<and> (\<exists>req. fst (createSignedOrder test_env test_txenv test_account test_password
                    test_orderParams fee_minus_one_networkParams) = Inr req
            \<and> UnsignedTransaction.fee (raw_transaction req) = Finite (- 1))"
proof -
  have f1: "TransactionParams.fee fee_minus_one_params = Finite (- 1)"
    by (simp add: fee_minus_one_params_def)
  have f2: "NetworkParams.fee fee_minus_one_networkParams = Finite (- 1)"
    by (simp add: fee_minus_one_networkParams_def)
  have f3: "TransactionParams.fee
      (createSignedOrder_txParams test_orderParams fee_minus_one_networkParams) = Finite (- 1)"
    by (simp add: createSignedOrder_txParams_def Let_def f2)
  obtain req1 where r1:
    "createAndSignTransaction test_txenv fee_minus_one_params ''0101'' ''abab'' ED25519 = Inr req1"
    using test_txenv_signs by blast
  obtain req2 where r2:
    "createAndSignTransaction test_txenv
       (createSignedOrder_txParams test_orderParams fee_minus_one_networkParams)
       (privateKeyHex_of (replicate 32 1 @ replicate 32 2))
       (EncryptedCanopyKeyfile.publicKey (encryptedKeyfile test_account))
       (detectCurveType (EncryptedCanopyKeyfile.publicKey (encryptedKeyfile test_account)))
     = Inr req2"
    using test_txenv_signs by blast
  have flow: "fst (createSignedOrder test_env test_txenv test_account test_password
                    test_orderParams fee_minus_one_networkParams) = Inr req2"
    by (simp add: createSignedOrder_decrypted [OF test_decrypt] r2)
  from createAndSignTransaction_fee [OF r1] createAndSignTransaction_fee [OF r2] f1 f2 f3 r1 flow
  show ?thesis by (simp add: createAndSignTransaction_no_InvalidParameter)
qed

subsection \<open>Curve detection\<close>

text \<open>
  Claim C5: the curve depends on nothing but the length of the public-key hex string.
  In each of the three flows, once the key is decrypted, a public key of 64 hex characters
  makes the flow sign with ED25519 and one of 96 hex characters with BLS12381.
\<close>

theorem curve_follows_public_key_length:
  assumes "decryptPrivateKey env (encryptedKeyfile storedKey) password = Inr key"
    and "pk = EncryptedCanopyKeyfile.publicKey (encryptedKeyfile storedKey)"
    and "(length pk = 64 \<and> curve = ED25519) \<or> (length pk = 96 \<and> curve = BLS12381)"
  shows "detectCurveType pk = curve
    \<and> (\<forall>pk'. length pk' = length pk \<longrightarrow> detectCurveType pk' = detectCurveType pk)
    \<and> fst (createSignedOrder env txenv storedKey password orderParams networkParams)
        = createAndSignTransaction txenv (createSignedOrder_txParams orderParams networkParams)
            (privateKeyHex_of key) pk curve
    \<and> fst (createSignedEditOrder env txenv storedKey password editParams networkParams)
        = createAndSignTransaction txenv (createSignedEditOrder_txParams editParams networkParams)
            (privateKeyHex_of key) pk curve
    \<and> fst (createSignedDeleteOrder env txenv storedKey password deleteParams networkParams)
        = createAndSignTransaction txenv (createSignedDeleteOrder_txParams deleteParams networkParams)
            (privateKeyHex_of key) pk curve"
proof -
  from assms(3) have "detectCurveType pk = curve"
    by (auto simp: detectCurveType_length)
  then have flows:
    "fst (createSignedOrder env txenv storedKey password orderParams networkParams)
        = createAndSignTransaction txenv (createSignedOrder_txParams orderParams networkParams)
            (privateKeyHex_of key) pk curve
    \<and> fst (createSignedEditOrder env txenv storedKey password editParams networkParams)
        = createAndSignTransaction txenv (createSignedEditOrder_txParams editParams networkParams)
            (privateKeyHex_of key) pk curve
    \<and> fst (createSignedDeleteOrder env txenv storedKey password deleteParams networkParams)
        = createAndSignTransaction txenv (createSignedDeleteOrder_txParams deleteParams networkParams)
            (privateKeyHex_of key) pk curve"
    using assms(1,2)
    by (simp add: createSignedOrder_decrypted createSignedEditOrder_decrypted
          createSignedDeleteOrder_decrypted)
  have pure: "\<forall>pk'. length pk' = length pk \<longrightarrow> detectCurveType pk' = detectCurveType pk"
    by (simp add: detectCurveType_length)
  from \<open>detectCurveType pk = curve\<close> pure flows show ?thesis
    by blast
qed

theorem curve_follows_public_key_length_witness:
  "length (EncryptedCanopyKeyfile.publicKey (encryptedKeyfile test_account)) = 64
   \<and> fst (createSignedOrder test_env test_txenv test_account test_password test_orderParams
            test_networkParams)
       = createAndSignTransaction test_txenv
           (createSignedOrder_txParams test_orderParams test_networkParams)
           (privateKeyHex_of (replicate 32 1 @ replicate 32 2))
           (EncryptedCanopyKeyfile.publicKey (encryptedKeyfile test_account)) ED25519
   \<and> length (EncryptedCanopyKeyfile.publicKey (encryptedKeyfile bls_account)) = 96
   \<and> fst (createSignedDeleteOrder test_env test_txenv bls_account test_password test_deleteParams
            test_networkParams)
       = createAndSignTransaction test_txenv
           (createSignedDeleteOrder_txParams test_deleteParams test_networkParams)
           (privateKeyHex_of (replicate 32 1 @ replicate 32 2))
           (EncryptedCanopyKeyfile.publicKey (encryptedKeyfile bls_account)) BLS12381"
  using curve_follows_public_key_length
      [OF test_decrypt refl, where curve = ED25519 and txenv = test_txenv
        and orderParams = test_orderParams and networkParams = test_networkParams]
    curve_follows_public_key_length
      [OF bls_decrypt refl, where curve = BLS12381 and txenv = test_txenv
        and deleteParams = test_deleteParams and networkParams = test_networkParams]
  by (simp add: test_publicKey_length bls_publicKey_length)

text \<open>
  Claim C10: curve detection is total and defaults to ED25519. Only a public key of exactly
  96 hex characters selects BLS12381; every other length (40, 100, an odd one) selects
  ED25519, in the flows as well, and the flows fail only where decryption, the codec or
  the signer fails.
\<close>

theorem curve_defaults_to_ED25519:
  "detectCurveType pk = (if length pk = 96 then BLS12381 else ED25519)
   \<and> (length pk = 40 \<longrightarrow> detectCurveType pk = ED25519)
   \<and> (length pk = 100 \<longrightarrow> detectCurveType pk = ED25519)
   \<and> (\<forall>key. length (EncryptedCanopyKeyfile.publicKey (encryptedKeyfile storedKey)) \<noteq> 96
         \<longrightarrow> decryptPrivateKey env (encryptedKeyfile storedKey) password = Inr key
         \<longrightarrow> fst (createSignedOrder env txenv storedKey password orderParams networkParams)
               = createAndSignTransaction txenv
                   (createSignedOrder_txParams orderParams networkParams) (privateKeyHex_of key)
                   (EncryptedCanopyKeyfile.publicKey (encryptedKeyfile storedKey)) ED25519
           \<and> fst (createSignedEditOrder env txenv storedKey password editParams networkParams)
               = createAndSignTransaction txenv
                   (createSignedEditOrder_txParams editParams networkParams) (privateKeyHex_of key)
                   (EncryptedCanopyKeyfile.publicKey (encryptedKeyfile storedKey)) ED25519
           \<and> fst (createSignedDeleteOrder env txenv storedKey password deleteParams networkParams)
               = createAndSignTransaction txenv
                   (createSignedDeleteOrder_txParams deleteParams networkParams) (privateKeyHex_of key)
                   (EncryptedCanopyKeyfile.publicKey (encryptedKeyfile storedKey)) ED25519)
   \<and> (\<forall>e. fst (createSignedOrder env txenv storedKey password orderParams networkParams) = Inl e
         \<longrightarrow> decryptPrivateKey env (encryptedKeyfile storedKey) password = Inl e
             \<or> e = EncodingMismatch \<or> e = SigningFailure)
   \<and> (\<forall>e. fst (createSignedDeleteOrder env txenv storedKey password deleteParams networkParams) = Inl e
         \<longrightarrow> decryptPrivateKey env (encryptedKeyfile storedKey) password = Inl e
             \<or> e = EncodingMismatch \<or> e = SigningFailure)"
proof -
  have flows: "fst (createSignedOrder env txenv storedKey password orderParams networkParams)
               = createAndSignTransaction txenv
                   (createSignedOrder_txParams orderParams networkParams) (privateKeyHex_of key)
                   (EncryptedCanopyKeyfile.publicKey (encryptedKeyfile storedKey)) ED25519
           \<and> fst (createSignedEditOrder env txenv storedKey password editParams networkParams)
               = createAndSignTransaction txenv
                   (createSignedEditOrder_txParams editParams networkParams) (privateKeyHex_of key)
                   (EncryptedCanopyKeyfile.publicKey (encryptedKeyfile storedKey)) ED25519
           \<and> fst (createSignedDeleteOrder env txenv storedKey password deleteParams networkParams)
               = createAndSignTransaction txenv
                   (createSignedDeleteOrder_txParams deleteParams networkParams) (privateKeyHex_of key)
                   (EncryptedCanopyKeyfile.publicKey (encryptedKeyfile storedKey)) ED25519"
    if "length (EncryptedCanopyKeyfile.publicKey (encryptedKeyfile storedKey)) \<noteq> 96"
      and "decryptPrivateKey env (encryptedKeyfile storedKey) password = Inr key" for key
    using that
    by (simp add: createSignedOrder_decrypted createSignedEditOrder_decrypted
          createSignedDeleteOrder_decrypted detectCurveType_length)
  have order_errors: "decryptPrivateKey env (encryptedKeyfile storedKey) password = Inl e
             \<or> e = EncodingMismatch \<or> e = SigningFailure"
    if "fst (createSignedOrder env txenv storedKey password orderParams networkParams) = Inl e" for e
  proof (cases "decryptPrivateKey env (encryptedKeyfile storedKey) password")
    case (Inl e')
    with that show ?thesis by (simp add: createSignedOrder_not_decrypted)
  next
    case (Inr key)
    with that show ?thesis
      by (auto simp: createSignedOrder_decrypted dest: createAndSignTransaction_errors)
  qed
  have delete_errors: "decryptPrivateKey env (encryptedKeyfile storedKey) password = Inl e
             \<or> e = EncodingMismatch \<or> e = SigningFailure"
    if "fst (createSignedDeleteOrder env txenv storedKey password deleteParams networkParams) = Inl e"
    for e
  proof (cases "decryptPrivateKey env (encryptedKeyfile storedKey) password")
    case (Inl e')
    with that show ?thesis by (simp add: createSignedDeleteOrder_not_decrypted)
  next
    case (Inr key)
    with that show ?thesis
      by (auto simp: createSignedDeleteOrder_decrypted dest: createAndSignTransaction_errors)
  qed
  have detect: "detectCurveType pk = (if length pk = 96 then BLS12381 else ED25519)"
    by (rule detectCurveType_length)
  have d40: "length pk = 40 \<longrightarrow> detectCurveType pk = ED25519"
    by (simp add: detectCurveType_length)
  have d100: "length pk = 100 \<longrightarrow> detectCurveType pk = ED25519"
    by (simp add: detectCurveType_length)
  from detect d40 d100 flows order_errors delete_errors show ?thesis
    by blast
qed

theorem curve_defaults_to_ED25519_witness:
  "detectCurveType (replicate 40 (CHR ''a'')) = ED25519
   \<and> detectCurveType (replicate 100 (CHR ''a'')) = ED25519
   \<and> detectCurveType (replicate 97 (CHR ''a'')) = ED25519
   \<and> detectCurveType (replicate 96 (CHR ''a'')) = BLS12381
   \<and> length (EncryptedCanopyKeyfile.publicKey (encryptedKeyfile test_account)) \<noteq> 96
   \<and> fst (createSignedDeleteOrder test_env test_txenv test_account test_password test_deleteParams
            test_networkParams)
       = createAndSignTransaction test_txenv
           (createSignedDeleteOrder_txParams test_deleteParams test_networkParams)
           (privateKeyHex_of (replicate 32 1 @ replicate 32 2))
           (EncryptedCanopyKeyfile.publicKey (encryptedKeyfile test_account)) ED25519"
proof -
  have flow: "fst (createSignedDeleteOrder test_env test_txenv test_account test_password
            test_deleteParams test_networkParams)
       = createAndSignTransaction test_txenv
           (createSignedDeleteOrder_txParams test_deleteParams test_networkParams)
           (privateKeyHex_of (replicate 32 1 @ replicate 32 2))
           (EncryptedCanopyKeyfile.publicKey (encryptedKeyfile test_account)) ED25519"
    using curve_defaults_to_ED25519
      [where env = test_env and storedKey = test_account and password = test_password
        and txenv = test_txenv and deleteParams = test_deleteParams
        and networkParams = test_networkParams]
      test_decrypt
    by (simp add: test_publicKey_length)
  from curve_defaults_to_ED25519 [of "replicate 40 (CHR ''a'')"]
    curve_defaults_to_ED25519 [of "replicate 100 (CHR ''a'')"]
    curve_defaults_to_ED25519 [of "replicate 97 (CHR ''a'')"]
    curve_defaults_to_ED25519 [of "replicate 96 (CHR ''a'')"]
  have "detectCurveType (replicate 40 (CHR ''a'')) = ED25519
   \<and> detectCurveType (replicate 100 (CHR ''a'')) = ED25519
   \<and> detectCurveType (replicate 97 (CHR ''a'')) = ED25519
   \<and> detectCurveType (replicate 96 (CHR ''a'')) = BLS12381"
    by simp
  with flow show ?thesis by (simp add: test_publicKey_length)
qed

subsection \<open>The private-key buffer\<close>

text \<open>\<open>clearSensitiveData\<close>, which no flow calls, leaves its arguments as they were.\<close>

lemma clearSensitiveData_unchanged: "clearSensitiveData items = items"
  by (simp add: clearSensitiveData_def Let_def)

text \<open>
  Claim C7, as amended: no flow writes to the private-key buffer. On every exit path
  after decryption (a signed transaction, an encoding failure, a signing failure) the
  buffer still holds the decrypted key bytes; when decryption fails there is no buffer.
\<close>

theorem key_buffer_not_zeroed:
  "snd (createSignedOrder env txenv storedKey password orderParams networkParams)
     = (case decryptPrivateKey env (encryptedKeyfile storedKey) password of
          Inl e \<Rightarrow> None | Inr key \<Rightarrow> Some key)
   \<and> snd (createSignedEditOrder env txenv storedKey password editParams networkParams)
     = (case decryptPrivateKey env (encryptedKeyfile storedKey) password of
          Inl e \<Rightarrow> None | Inr key \<Rightarrow> Some key)
   \<and> snd (createSignedDeleteOrder env txenv storedKey password deleteParams networkParams)
     = (case decryptPrivateKey env (encryptedKeyfile storedKey) password of
          Inl e \<Rightarrow> None | Inr key \<Rightarrow> Some key)"
  by (cases "decryptPrivateKey env (encryptedKeyfile storedKey) password")
    (simp_all add: createSignedOrder_decrypted createSignedOrder_not_decrypted
      createSignedEditOrder_decrypted createSignedEditOrder_not_decrypted
      createSignedDeleteOrder_decrypted createSignedDeleteOrder_not_decrypted)

theorem key_buffer_not_zeroed_witness:
  "snd (createSignedOrder test_env test_txenv test_account test_password test_orderParams
          test_networkParams) = Some (replicate 32 1 @ replicate 32 2)
   \<and> snd (createSignedDeleteOrder test_env failing_signer_txenv test_account test_password
          test_deleteParams test_networkParams) = Some (replicate 32 1 @ replicate 32 2)
   \<and> snd (createSignedEditOrder test_env test_txenv test_account test_wrong_password
          test_editParams test_networkParams) = None"
proof -
  have wrong: "decryptPrivateKey test_env (encryptedKeyfile test_account) test_wrong_password
      = Inl InvalidPassword"
    using test_decrypt_wrong_password by (simp add: test_account_def)
  from key_buffer_not_zeroed
    [where env = test_env and txenv = test_txenv and storedKey = test_account
      and password = test_password and orderParams = test_orderParams
      and networkParams = test_networkParams]
    key_buffer_not_zeroed
    [where env = test_env and txenv = failing_signer_txenv and storedKey = test_account
      and password = test_password and deleteParams = test_deleteParams
      and networkParams = test_networkParams]
    key_buffer_not_zeroed
    [where env = test_env and txenv = test_txenv and storedKey = test_account
      and password = test_wrong_password and editParams = test_editParams
      and networkParams = test_networkParams]
  show ?thesis by (simp add: test_decrypt wrong)
qed

text \<open>
  Claim C7 as stated fails: after \<open>createSignedOrder\<close> returns, whatever the codec and
  the signer do (a signed transaction, a signing failure), the key buffer holds the 64
  decrypted bytes, not zeros.
\<close>

theorem key_bytes_outlive_the_call:
  "(\<forall>txenv. snd (createSignedOrder test_env txenv test_account test_password test_orderParams
                    test_networkParams) = Some (replicate 32 1 @ replicate 32 2))
   \<and> (\<exists>req. createSignedOrder test_env test_txenv test_account test_password test_orderParams
            test_networkParams = (Inr req, Some (replicate 32 1 @ replicate 32 2)))
   \<and> createSignedOrder test_env failing_signer_txenv test_account test_password test_orderParams
        test_networkParams = (Inl SigningFailure, Some (replicate 32 1 @ replicate 32 2))
   \<and> replicate 32 1 @ replicate 32 2 \<noteq> replicate 64 (0 :: byte)"
proof -
  obtain req where r:
    "createAndSignTransaction test_txenv
       (createSignedOrder_txParams test_orderParams test_networkParams)
       (privateKeyHex_of (replicate 32 1 @ replicate 32 2))
       (EncryptedCanopyKeyfile.publicKey (encryptedKeyfile test_account))
       (detectCurveType (EncryptedCanopyKeyfile.publicKey (encryptedKeyfile test_account)))
     = Inr req"
    using test_txenv_signs by blast
  have fails: "createAndSignTransaction failing_signer_txenv params priv pub curve
      = Inl SigningFailure" for params priv pub curve
    by (simp add: createAndSignTransaction_def failing_signer_txenv_def test_txenv_def Let_def)
  have nonzero: "replicate 32 1 @ replicate 32 2 \<noteq> replicate 64 (0 :: byte)"
  proof
    assume "replicate 32 1 @ replicate 32 2 = replicate 64 (0 :: byte)"
    then have "(replicate 32 1 @ replicate 32 2) ! 0 = replicate 64 (0 :: byte) ! 0" by simp
    then show False by (simp add: nth_append)
  qed
  from r fails nonzero show ?thesis
    by (simp add: createSignedOrder_decrypted [OF test_decrypt])
qed

subsection \<open>The signed transaction\<close>

text \<open>
  Claim C8: when the codec and the signer succeed, \<open>createAndSignTransaction\<close> returns
  the transaction whose \<open>signature.publicKey\<close> is the input public key hex, whose type,
  msg, fee, memo, networkID and chainID are the supplied ones, whose \<open>createdHeight\<close> is the
  supplied height, whose time is the clock reading in microseconds and whose signature is
  the signer's; for an ED25519 key, given the signer's 64-byte signature, that is 128 hex
  characters.
\<close>

theorem signed_transaction_carries_inputs:
  assumes codec:
      "getSignBytesProtobuf txenv
         \<lparr>UnsignedTransaction.type = TransactionParams.type params,
          msg = TransactionParams.msg params,
          time = Date_now txenv * 1000,
          createdHeight = height params,
          fee = TransactionParams.fee params,
          memo = TransactionParams.memo params,
          networkID = TransactionParams.networkID params,
          chainID = TransactionParams.chainID params\<rparr> = Some signBytes"
    and signer: "signMessage txenv signBytes privateKeyHex curveType = Some signatureHex"
  shows "createAndSignTransaction txenv params privateKeyHex publicKeyHex curveType =
           Inr \<lparr>raw_transaction =
                 \<lparr>UnsignedTransaction.type = TransactionParams.type params,
                  msg = TransactionParams.msg params,
                  time = Date_now txenv * 1000,
                  createdHeight = height params,
                  fee = TransactionParams.fee params,
                  memo = TransactionParams.memo params,
                  networkID = TransactionParams.networkID params,
                  chainID = TransactionParams.chainID params,
                  signature = \<lparr>TransactionSignature.publicKey = publicKeyHex,
                               signature = signatureHex\<rparr>\<rparr>\<rparr>
         \<and> (ed25519_signature_length txenv \<longrightarrow> curveType = ED25519 \<longrightarrow> length signatureHex = 128)"
proof -
  have "ed25519_signature_length txenv \<longrightarrow> curveType = ED25519 \<longrightarrow> length signatureHex = 128"
    using signer by (auto simp: ed25519_signature_length_def)
  moreover have "createAndSignTransaction txenv params privateKeyHex publicKeyHex curveType =
           Inr \<lparr>raw_transaction =
                 \<lparr>UnsignedTransaction.type = TransactionParams.type params,
                  msg = TransactionParams.msg params,
                  time = Date_now txenv * 1000,
                  createdHeight = height params,
                  fee = TransactionParams.fee params,
                  memo = TransactionParams.memo params,
                  networkID = TransactionParams.networkID params,
                  chainID = TransactionParams.chainID params,
                  signature = \<lparr>TransactionSignature.publicKey = publicKeyHex,
                               signature = signatureHex\<rparr>\<rparr>\<rparr>"
    by (simp add: createAndSignTransaction_def Let_def codec signer
          UnsignedTransaction.defs RawTransaction.defs)
  ultimately show ?thesis by simp
qed

theorem signed_transaction_carries_inputs_witness:
  "ed25519_signature_length test_txenv
   \<and> (\<exists>req. createAndSignTransaction test_txenv test_txParams ''0101'' ''abab'' ED25519 = Inr req
        \<and> TransactionSignature.publicKey (RawTransaction.signature (raw_transaction req)) = ''abab''
        \<and> length (TransactionSignature.signature (RawTransaction.signature (raw_transaction req))) = 128
        \<and> UnsignedTransaction.fee (raw_transaction req) = Finite 10000
        \<and> createdHeight (raw_transaction req) = Finite 500
        \<and> UnsignedTransaction.networkID (raw_transaction req) = Finite 1
        \<and> UnsignedTransaction.chainID (raw_transaction req) = Finite 1
        \<and> UnsignedTransaction.type (raw_transaction req) = ''createOrder'')"
proof -
  have codec: "getSignBytesProtobuf test_txenv
         \<lparr>UnsignedTransaction.type = TransactionParams.type test_txParams,
          msg = TransactionParams.msg test_txParams,
          time = Date_now test_txenv * 1000,
          createdHeight = height test_txParams,
          fee = TransactionParams.fee test_txParams,
          memo = TransactionParams.memo test_txParams,
          networkID = TransactionParams.networkID test_txParams,
          chainID = TransactionParams.chainID test_txParams\<rparr> = Some []"
    by (simp add: test_txenv_def)
  have signer: "signMessage test_txenv [] ''0101'' ED25519 = Some (replicate 128 (CHR ''0''))"
    by (simp add: test_txenv_def)
  have params: "TransactionParams.fee test_txParams = Finite 10000 \<and> height test_txParams = Finite 500
      \<and> TransactionParams.networkID test_txParams = Finite 1
      \<and> TransactionParams.chainID test_txParams = Finite 1
      \<and> TransactionParams.type test_txParams = ''createOrder''"
    by (simp add: test_txParams_def createSignedOrder_txParams_def test_networkParams_def Let_def)
  from signed_transaction_carries_inputs [OF codec signer, of "''abab''"] params
  show ?thesis
    by (simp add: test_txenv_signature_length)
qed

text \<open>
  Claim C9: the message \<open>createOrderMessage\<close> builds has the empty string as its
  \<open>orderId\<close>, for all inputs, and so has the message of every transaction that
  \<open>createSignedOrder\<close> returns.
\<close>

theorem created_order_has_empty_orderId:
  "MessageCreateOrderParams.orderId
     (createOrderMessage cId d forSale requested receiveAddress sendAddress) = ''''
   \<and> (\<exists>m. TransactionParams.msg (createSignedOrder_txParams orderParams networkParams)
              = Some (MessageCreateOrder m) \<and> MessageCreateOrderParams.orderId m = '''')
   \<and> (\<forall>req. fst (createSignedOrder env txenv storedKey password orderParams networkParams) = Inr req
         \<longrightarrow> (\<exists>m. UnsignedTransaction.msg (raw_transaction req) = Some (MessageCreateOrder m)
                \<and> MessageCreateOrderParams.orderId m = ''''))"
proof -
  have built: "\<exists>m. UnsignedTransaction.msg (raw_transaction req) = Some (MessageCreateOrder m)
                \<and> MessageCreateOrderParams.orderId m = ''''"
    if "fst (createSignedOrder env txenv storedKey password orderParams networkParams) = Inr req"
    for req
  proof (cases "decryptPrivateKey env (encryptedKeyfile storedKey) password")
    case (Inl e)
    with that show ?thesis by (simp add: createSignedOrder_not_decrypted)
  next
    case (Inr key)
    with that show ?thesis
      by (auto simp: createSignedOrder_decrypted createAndSignTransaction_def Let_def
            createSignedOrder_txParams_def createOrderMessage_def
            UnsignedTransaction.defs RawTransaction.defs split: option.splits)
  qed
  then show ?thesis
    by (simp add: createSignedOrder_txParams_def createOrderMessage_def Let_def)
qed

theorem created_order_has_empty_orderId_witness:
  "\<exists>req m. fst (createSignedOrder test_env test_txenv test_account test_password test_orderParams
            test_networkParams) = Inr req
     \<and> UnsignedTransaction.msg (raw_transaction req) = Some (MessageCreateOrder m)
     \<and> MessageCreateOrderParams.orderId m = ''''"
proof -
  obtain req where r:
    "createAndSignTransaction test_txenv
       (createSignedOrder_txParams test_orderParams test_networkParams)
       (privateKeyHex_of (replicate 32 1 @ replicate 32 2))
       (EncryptedCanopyKeyfile.publicKey (encryptedKeyfile test_account))
       (detectCurveType (EncryptedCanopyKeyfile.publicKey (encryptedKeyfile test_account)))
     = Inr req"
    using test_txenv_signs by blast
  then have flow: "fst (createSignedOrder test_env test_txenv test_account test_password
            test_orderParams test_networkParams) = Inr req"
    by (simp add: createSignedOrder_decrypted [OF test_decrypt])
  from created_order_has_empty_orderId
    [where env = test_env and txenv = test_txenv and storedKey = test_account
      and password = test_password and orderParams = test_orderParams
      and networkParams = test_networkParams] flow
  show ?thesis by blast
qed

end
